theory Spec2Isabelle
  imports Complex_Main
begin

section \<open>SARIMAX: model specification and construction\<close>

text \<open>
  The development follows \<^verbatim>\<open>statsmodels/tsa/statespace/sarimax.py\<close> and
  \<^verbatim>\<open>statsmodels/tsa/statespace/mlemodel.py\<close>. Floating-point numbers are
  modelled by the reals. Exceptions are values of type \<open>error\<close>; a function that may
  raise returns \<open>error + 'a\<close>, with \<open>Inl\<close> for the exception. The value
  \<open>NotFinite\<close> is not an exception: it stands for a numpy result that is \<^verbatim>\<open>nan\<close> or
  infinite (a division by zero, the root of a negative number), which no real number
  represents.
\<close>

datatype error =
    ValueError string
  | NotImplementedError
  | IndexError
  | KeyError
  | NotFinite

definition bind_err :: "error + 'a \<Rightarrow> ('a \<Rightarrow> error + 'b) \<Rightarrow> error + 'b" where
  "bind_err r k = (case r of Inl e \<Rightarrow> Inl e | Inr x \<Rightarrow> k x)"

subsection \<open>Constructor arguments\<close>

text \<open>
  An AR or MA order is either an integer count (\<^verbatim>\<open>isinstance(order[0], int)\<close>) or an
  iterable of inclusion flags, one per lag ("boolean vectors (0 for not included, 1 for
  included)").
\<close>

datatype order_spec = Count nat | Lags "bool list"

text \<open>
  The \<^verbatim>\<open>trend\<close> argument: \<^verbatim>\<open>None\<close>, one of the codes \<^verbatim>\<open>'n'\<close>, \<^verbatim>\<open>'c'\<close>,
  \<^verbatim>\<open>'t'\<close>, \<^verbatim>\<open>'ct'\<close>, or an iterable of numbers defining the polynomial.
\<close>

datatype trend_spec = TrendNone | TrendN | TrendC | TrendT | TrendCT | TrendPoly "int list"

text \<open>
  Of the exogenous array only the shape is used by the constructor: a one-dimensional
  array of \<open>n\<close> observations or an \<open>n \<times> k\<close> matrix.
\<close>

datatype exog_shape = Vec nat | Mat nat nat

record ModelSpec =
  arg_order_ar :: order_spec
  arg_order_diff :: nat
  arg_order_ma :: order_spec
  arg_seasonal_ar :: order_spec
  arg_seasonal_diff :: nat
  arg_seasonal_ma :: order_spec
  arg_seasons :: nat
  arg_trend :: trend_spec
  arg_measurement_error :: bool
  arg_time_varying_regression :: bool
  arg_mle_regression :: bool
  arg_simple_differencing :: bool
  arg_enforce_stationarity :: bool
  arg_enforce_invertibility :: bool
  arg_hamilton_representation :: bool
  arg_exog :: "exog_shape option"

subsection \<open>The model object\<close>

text \<open>
  The attributes set by \<^verbatim>\<open>SARIMAX.__init__\<close>. The private attributes
  \<^verbatim>\<open>_k_diff\<close>, \<^verbatim>\<open>_k_seasonal_diff\<close>, \<^verbatim>\<open>_k_order\<close> and
  \<^verbatim>\<open>_manual_initialization\<close> are written with the prefix \<open>priv_\<close>.
  Counts that Python computes as \<^verbatim>\<open>int(np.sum(...) - 1)\<close> are integers.
\<close>

record SARIMAX =
  k_seasons :: nat
  measurement_error :: bool
  time_varying_regression :: bool
  mle_regression :: bool
  simple_differencing :: bool
  enforce_stationarity :: bool
  enforce_invertibility :: bool
  hamilton_representation :: bool
  polynomial_ar :: "nat list"
  polynomial_ma :: "nat list"
  polynomial_seasonal_ar :: "nat list"
  polynomial_seasonal_ma :: "nat list"
  polynomial_trend :: "nat list"
  k_ar :: nat
  k_ar_params :: int
  k_diff :: nat
  k_ma :: nat
  k_ma_params :: int
  k_seasonal_ar :: nat
  k_seasonal_ar_params :: int
  k_seasonal_diff :: nat
  k_seasonal_ma :: nat
  k_seasonal_ma_params :: int
  priv_k_diff :: nat
  priv_k_seasonal_diff :: nat
  k_trend :: nat
  priv_k_order :: nat
  k_exog :: nat
  state_regression :: bool
  state_error :: bool
  k_params :: int
  k_states :: nat
  k_posdef :: nat
  loglikelihood_burn :: nat
  priv_manual_initialization :: bool

subsection \<open>Lag polynomials\<close>

text \<open>
  \<^verbatim>\<open>np.r_[1., np.ones(k)]\<close> for a count, \<^verbatim>\<open>np.r_[1., flags]\<close> for explicit flags.
\<close>

definition lag_polynomial :: "order_spec \<Rightarrow> nat list" where
  "lag_polynomial os =
     (case os of
        Count k \<Rightarrow> 1 # replicate k 1
      | Lags flags \<Rightarrow> 1 # map of_bool flags)"

text \<open>
  The seasonal polynomial. For a count \<open>k\<close>:
  \<^verbatim>\<open>np.r_[1., ([0] * (k_seasons-1) + [1]) * k]\<close> (a Python list repeated a negative
  number of times is empty, as \<open>replicate (s - 1)\<close> is at \<open>s = 0\<close>). For explicit
  flags the array \<^verbatim>\<open>np.r_[1., [0]*k_seasons*len(flags)]\<close> is written at the indices
  \<^verbatim>\<open>(i+1)*k_seasons\<close>, which are always in range.
\<close>

definition seasonal_lag_polynomial :: "nat \<Rightarrow> order_spec \<Rightarrow> nat list" where
  "seasonal_lag_polynomial s os =
     (case os of
        Count k \<Rightarrow> 1 # concat (replicate k (replicate (s - 1) 0 @ [1]))
      | Lags flags \<Rightarrow>
          fold (\<lambda>i p. p[(i + 1) * s := of_bool (flags ! i)]) [0..<length flags]
               (1 # replicate (s * length flags) 0))"

definition trend_polynomial :: "trend_spec \<Rightarrow> nat list" where
  "trend_polynomial t =
     (case t of
        TrendNone \<Rightarrow> []
      | TrendN \<Rightarrow> []
      | TrendC \<Rightarrow> [1]
      | TrendT \<Rightarrow> [0, 1]
      | TrendCT \<Rightarrow> [1, 1]
      | TrendPoly cs \<Rightarrow> map (\<lambda>c. if c > 0 then 1 else 0) cs)"

text \<open>\<^verbatim>\<open>exog.shape[1]\<close> after a one-dimensional array has been made a column.\<close>

definition exog_columns :: "exog_shape \<Rightarrow> nat" where
  "exog_columns e = (case e of Vec n \<Rightarrow> 1 | Mat n k \<Rightarrow> k)"

subsection \<open>\<^verbatim>\<open>SARIMAX.__init__\<close>\<close>

definition msg_time_varying :: string where
  "msg_time_varying = ''Models with time-varying regression coefficients must integrate the coefficients as part of the state vector, so that `mle_regression` must be set to False.''"

definition msg_hamilton :: string where
  "msg_hamilton = ''The Hamilton representation is only available for models in which there is no differencing integrated into the state vector. Set `simple_differencing` to True or set `hamilton_representation` to False''"

text \<open>The model order \<^verbatim>\<open>_k_order\<close> (lines 288 to 291).\<close>

definition model_order :: "nat \<Rightarrow> nat \<Rightarrow> nat \<Rightarrow> nat \<Rightarrow> nat" where
  "model_order kar ksar kma ksma =
     (if kar = 0 \<and> kma = 0 then 0 else max (kar + ksar) (kma + ksma + 1))"

text \<open>
  The attributes that the constructor sets when none of its checks fails, up to the call
  of the base-class constructor. The local variables keep the source's names. The number
  of parameters is the sum written at lines 344 to 351. After the base-class constructor
  has run (which calls \<^verbatim>\<open>initialize\<close> and so clears
  \<^verbatim>\<open>_manual_initialization\<close>), a model without diffuse states is initialised as
  stationary, which sets the flag. The observed series, its differencing and the number
  of observations are not part of this record.
\<close>

definition sarimax_attributes :: "ModelSpec \<Rightarrow> SARIMAX" where
  "sarimax_attributes a =
     (let s = arg_seasons a;
          p_ar = lag_polynomial (arg_order_ar a);
          p_ma = lag_polynomial (arg_order_ma a);
          p_sar = seasonal_lag_polynomial s (arg_seasonal_ar a);
          p_sma = seasonal_lag_polynomial s (arg_seasonal_ma a);
          p_trend = trend_polynomial (arg_trend a);
          kar = length p_ar - 1;
          kma = length p_ma - 1;
          ksar = length p_sar - 1;
          ksma = length p_sma - 1;
          kar_params = int (sum_list p_ar) - 1;
          kma_params = int (sum_list p_ma) - 1;
          ksar_params = int (sum_list p_sar) - 1;
          ksma_params = int (sum_list p_sma) - 1;
          d = arg_order_diff a;
          sd = arg_seasonal_diff a;
          ktrend = sum_list p_trend;
          korder = model_order kar ksar kma ksma;
          kexog = (case arg_exog a of None \<Rightarrow> 0 | Some e \<Rightarrow> exog_columns e);
          mle = (arg_mle_regression a \<and> arg_exog a \<noteq> None \<and> kexog > 0);
          state_reg = (\<not> mle \<and> arg_exog a \<noteq> None \<and> kexog > 0);
          meas = (if state_reg \<and> korder = 0 then True else arg_measurement_error a);
          k_states0 = korder;
          k_states1 = (if \<not> arg_simple_differencing a then k_states0 + (s * sd + d) else k_states0);
          k_states2 = (if state_reg then k_states1 + kexog else k_states1);
          k_diffuse_states = (if arg_enforce_stationarity a then k_states2 - korder else k_states2);
          k_posdef0 = (if korder > 0 then 1 else 0);
          st_err = (k_posdef0 > 0);
          k_posdef1 = (if state_reg \<and> arg_time_varying_regression a then k_posdef0 + kexog else k_posdef0);
          k_params0 = kar_params + kma_params + ksar_params + ksar_params + int ktrend
                       + of_bool meas + 1;
          k_params1 = (if mle then k_params0 + int kexog else k_params0);
          differenced = (arg_simple_differencing a \<and> (d > 0 \<or> sd > 0))
      in
      \<lparr> k_seasons = s,
        measurement_error = meas,
        time_varying_regression = arg_time_varying_regression a,
        mle_regression = mle,
        simple_differencing = arg_simple_differencing a,
        enforce_stationarity = arg_enforce_stationarity a,
        enforce_invertibility = arg_enforce_invertibility a,
        hamilton_representation = arg_hamilton_representation a,
        polynomial_ar = p_ar,
        polynomial_ma = p_ma,
        polynomial_seasonal_ar = p_sar,
        polynomial_seasonal_ma = p_sma,
        polynomial_trend = p_trend,
        k_ar = kar,
        k_ar_params = kar_params,
        k_diff = d,
        k_ma = kma,
        k_ma_params = kma_params,
        k_seasonal_ar = ksar,
        k_seasonal_ar_params = ksar_params,
        k_seasonal_diff = sd,
        k_seasonal_ma = ksma,
        k_seasonal_ma_params = ksma_params,
        priv_k_diff = (if differenced then 0 else d),
        priv_k_seasonal_diff = (if differenced then 0 else sd),
        k_trend = ktrend,
        priv_k_order = korder,
        k_exog = kexog,
        state_regression = state_reg,
        state_error = st_err,
        k_params = k_params1,
        k_states = k_states2,
        k_posdef = k_posdef1,
        loglikelihood_burn = k_diffuse_states,
        priv_manual_initialization = (k_diffuse_states = 0) \<rparr>)"

text \<open>
  The constructor: its three checks in the order of the source (lines 182, 188 and 273;
  nothing that runs between them can fail), then the attributes.
\<close>

definition sarimax_init :: "ModelSpec \<Rightarrow> error + SARIMAX" where
  "sarimax_init a =
    (if arg_time_varying_regression a \<and> arg_mle_regression a then Inl (ValueError msg_time_varying)
     else if arg_time_varying_regression a then Inl NotImplementedError
     else if arg_hamilton_representation a \<and>
             \<not> (arg_simple_differencing a \<or> (arg_order_diff a = 0 \<and> arg_seasonal_diff a = 0))
     then Inl (ValueError msg_hamilton)
     else Inr (sarimax_attributes a))"

text \<open>
  The segments of the parameter vector as \<^verbatim>\<open>SARIMAX.update\<close> slices them (lines 1134
  to 1163), in order: trend, regression coefficients, AR, MA, seasonal AR, seasonal MA,
  regression variances, measurement-error variance, state-error variance.
\<close>

definition param_segments :: "SARIMAX \<Rightarrow> int list" where
  "param_segments m =
     [ int (k_trend m),
       (if mle_regression m then int (k_exog m) else 0),
       k_ar_params m,
       k_ma_params m,
       k_seasonal_ar_params m,
       k_seasonal_ma_params m,
       (if state_regression m \<and> time_varying_regression m then int (k_exog m) else 0),
       (if measurement_error m then 1 else 0),
       (if state_error m then 1 else 0) ]"

subsection \<open>Concrete specifications\<close>

text \<open>The defaults of the constructor's arguments: an AR(1) model without exogenous data.\<close>

definition default_spec :: ModelSpec where
  "default_spec =
     \<lparr> arg_order_ar = Count 1, arg_order_diff = 0, arg_order_ma = Count 0,
       arg_seasonal_ar = Count 0, arg_seasonal_diff = 0, arg_seasonal_ma = Count 0,
       arg_seasons = 0, arg_trend = TrendNone,
       arg_measurement_error = False, arg_time_varying_regression = False,
       arg_mle_regression = True, arg_simple_differencing = False,
       arg_enforce_stationarity = True, arg_enforce_invertibility = True,
       arg_hamilton_representation = False, arg_exog = None \<rparr>"

text \<open>\<^verbatim>\<open>SARIMAX(endog, order=(1,0,0), seasonal_order=(0,0,1,4))\<close>\<close>

definition spec_seasonal_ma :: ModelSpec where
  "spec_seasonal_ma = default_spec\<lparr>arg_seasonal_ma := Count 1, arg_seasons := 4\<rparr>"

text \<open>\<^verbatim>\<open>SARIMAX(endog, order=(0,0,0), seasonal_order=(1,0,0,4))\<close>\<close>

definition spec_pure_seasonal_ar :: ModelSpec where
  "spec_pure_seasonal_ar =
     default_spec\<lparr>arg_order_ar := Count 0, arg_seasonal_ar := Count 1, arg_seasons := 4\<rparr>"

text \<open>
  \<^verbatim>\<open>SARIMAX(endog, order=(1,0,0), enforce_stationarity=False)\<close>: the parameter vector
  holds the AR coefficient and the state variance.
\<close>

definition spec_ar1_unenforced :: ModelSpec where
  "spec_ar1_unenforced = default_spec\<lparr>arg_enforce_stationarity := False\<rparr>"

text \<open>
  \<^verbatim>\<open>SARIMAX(endog, order=(2,0,0), trend='c', measurement_error=True)\<close>: the parameter
  vector holds the intercept, two AR coefficients, the measurement-error variance and the
  state variance.
\<close>

definition spec_ar2_trend :: ModelSpec where
  "spec_ar2_trend =
     default_spec\<lparr>arg_order_ar := Count 2, arg_trend := TrendC, arg_measurement_error := True\<rparr>"

text \<open>\<^verbatim>\<open>SARIMAX(endog, exog, order=(1,0,0))\<close> with an exogenous array of no columns.\<close>

definition spec_no_columns :: ModelSpec where
  "spec_no_columns = default_spec\<lparr>arg_exog := Some (Mat 100 0)\<rparr>"

text \<open>\<^verbatim>\<open>SARIMAX(endog, exog, order=(1,0,0))\<close> with two regressors and 100 observations.\<close>

definition spec_two_regressors :: ModelSpec where
  "spec_two_regressors = default_spec\<lparr>arg_exog := Some (Mat 100 2)\<rparr>"

subsection \<open>The number of states as the specification words it\<close>

text \<open>
  The order component in the specification's words: the maximum of the combined AR order
  and the combined MA order plus one, and zero when the combined AR order and the
  combined MA order are both zero. This definition is not taken from the code; it is
  compared with \<open>k_states\<close> below.
\<close>

definition specified_order_component :: "SARIMAX \<Rightarrow> nat" where
  "specified_order_component m =
     (if k_ar m + k_seasonal_ar m = 0 \<and> k_ma m + k_seasonal_ma m = 0 then 0
      else max (k_ar m + k_seasonal_ar m) (k_ma m + k_seasonal_ma m + 1))"

definition specified_k_states :: "SARIMAX \<Rightarrow> nat" where
  "specified_k_states m =
     specified_order_component m
     + (if simple_differencing m then 0 else k_diff m + k_seasons m * k_seasonal_diff m)
     + (if state_regression m then k_exog m else 0)"

section \<open>The maximum-likelihood driver\<close>

subsection \<open>\<^verbatim>\<open>MLEModel.fit\<close>\<close>

text \<open>
  The keyword arguments that \<^verbatim>\<open>fit\<close> reads or writes; an absent key is \<open>None\<close>.
\<close>

record fit_kwargs =
  approx_grad :: "bool option"
  epsilon :: "real option"
  average_loglike :: "bool option"

definition no_kwargs :: fit_kwargs where
  "no_kwargs = \<lparr> approx_grad = None, epsilon = None, average_loglike = None \<rparr>"

text \<open>\<^verbatim>\<open>kwargs.setdefault(key, v)\<close> on one key.\<close>

definition setdefault :: "'a option \<Rightarrow> 'a \<Rightarrow> 'a option" where
  "setdefault cur v = (case cur of None \<Rightarrow> Some v | Some w \<Rightarrow> Some w)"

text \<open>
  One minimisation pass, that is one call of the base class's \<^verbatim>\<open>fit\<close>, with the
  arguments it is given.
\<close>

record optimizer_call =
  opt_start_params :: "real list"
  opt_method :: string
  opt_fargs :: "bool \<times> bool \<times> bool"
  opt_maxiter :: nat
  opt_kwargs :: fit_kwargs

text \<open>
  \<^verbatim>\<open>MLEModel.fit\<close> up to the point where \<^verbatim>\<open>mlefit\<close> is final (line 161). The
  optimiser (the base class's \<^verbatim>\<open>fit\<close>) is the parameter \<open>minimize\<close>, which returns
  the optimum it found; \<open>untransform\<close> is \<^verbatim>\<open>self.untransform_params\<close> and
  \<open>default_start\<close> is \<^verbatim>\<open>self.start_params\<close>. The result lists the minimisation
  passes in the order they ran, with the parameters of the last one.
\<close>

definition fit ::
  "(optimizer_call \<Rightarrow> real list) \<Rightarrow> (real list \<Rightarrow> error + real list) \<Rightarrow> (error + real list) \<Rightarrow>
   real list option \<Rightarrow> bool \<Rightarrow> string \<Rightarrow> nat \<Rightarrow> bool \<Rightarrow> fit_kwargs \<Rightarrow>
   error + (optimizer_call list \<times> real list)" where
  "fit minimize untransform default_start start_params transformed method maxiter bfgs_tune kwargs =
     bind_err (case start_params of
                 None \<Rightarrow> bind_err default_start (\<lambda>p. Inr (p, True))
               | Some p \<Rightarrow> Inr (p, transformed)) (\<lambda>(sp, tr).
     bind_err (if tr then untransform sp else Inr sp) (\<lambda>x0.
       let kwargs1 = (if method = ''lbfgs'' \<or> method = ''bfgs''
                      then kwargs\<lparr> approx_grad := setdefault (approx_grad kwargs) True,
                                   epsilon := setdefault (epsilon kwargs) (1 / 100000) \<rparr>
                      else kwargs);
           fargs1 = ((case average_loglike kwargs1 of None \<Rightarrow> True | Some b \<Rightarrow> b), False, False);
           call1 = \<lparr> opt_start_params = x0, opt_method = method, opt_fargs = fargs1,
                     opt_maxiter = maxiter, opt_kwargs = kwargs1 \<rparr>;
           params1 = minimize call1
       in
       if (bfgs_tune \<and> method = ''lbfgs'') \<or> method = ''bfgs'' then
         (case epsilon kwargs1 of
            None \<Rightarrow> Inl KeyError
          | Some eps \<Rightarrow>
              let kwargs2 = kwargs1\<lparr> approx_grad := Some False, epsilon := None \<rparr>;
                  fargs2 = ((case average_loglike kwargs2 of None \<Rightarrow> True | Some b \<Rightarrow> b), False, False);
                  call2 = \<lparr> opt_start_params = params1, opt_method = method, opt_fargs = fargs2,
                            opt_maxiter = maxiter, opt_kwargs = kwargs2 \<rparr>
              in Inr ([call1, call2], minimize call2))
       else Inr ([call1], params1)))"

subsection \<open>\<^verbatim>\<open>MLEModel.update\<close> and \<^verbatim>\<open>MLEModel.loglike\<close>\<close>

text \<open>
  The model holds the parameters last set, the number of observations and its
  state-space representation, of a type \<open>'rep\<close> left open.
\<close>

record 'rep MLEModel =
  mle_params :: "real list option"
  mle_nobs :: nat
  mle_rep :: 'rep

text \<open>
  \<^verbatim>\<open>update\<close>: the base class transforms the parameters unless they are already
  transformed, and stores them if \<^verbatim>\<open>set_params\<close>; the subclass then rewrites the
  representation from the parameters (\<open>rebuild\<close>).
\<close>

definition update ::
  "(real list \<Rightarrow> error + real list) \<Rightarrow> (real list \<Rightarrow> 'rep \<Rightarrow> error + 'rep) \<Rightarrow>
   real list \<Rightarrow> bool \<Rightarrow> bool \<Rightarrow> 'rep MLEModel \<Rightarrow> error + (real list \<times> 'rep MLEModel)" where
  "update transform rebuild ps transformed set_params mdl =
     bind_err (if \<not> transformed then transform ps else Inr ps) (\<lambda>ps1.
       let mdl1 = (if set_params then mdl\<lparr> mle_params := Some ps1 \<rparr> else mdl) in
       bind_err (rebuild ps1 (mle_rep mdl1)) (\<lambda>rep1.
         Inr (ps1, mdl1\<lparr> mle_rep := rep1 \<rparr>)))"

text \<open>
  \<^verbatim>\<open>loglike\<close>: update the model if parameters are given, let the Kalman filter (the
  parameter \<open>kalman_loglike\<close>, the base class's \<^verbatim>\<open>loglike\<close>) evaluate the
  log-likelihood of the model, and divide by \<^verbatim>\<open>self.nobs\<close> if the average is asked
  for. A division by \<open>nobs = 0\<close> has no real result.
\<close>

definition loglike ::
  "(real list \<Rightarrow> error + real list) \<Rightarrow> (real list \<Rightarrow> 'rep \<Rightarrow> error + 'rep) \<Rightarrow>
   ('rep MLEModel \<Rightarrow> error + real) \<Rightarrow>
   real list option \<Rightarrow> bool \<Rightarrow> bool \<Rightarrow> bool \<Rightarrow> 'rep MLEModel \<Rightarrow> error + (real \<times> 'rep MLEModel)" where
  "loglike transform rebuild kalman_loglike params average transformed set_params mdl =
     bind_err (case params of
                 None \<Rightarrow> Inr mdl
               | Some ps \<Rightarrow> bind_err (update transform rebuild ps transformed set_params mdl)
                                     (\<lambda>(ps1, mdl1). Inr mdl1)) (\<lambda>mdl1.
     bind_err (kalman_loglike mdl1) (\<lambda>ll.
       if average then
         (if mle_nobs mdl1 = 0 then Inl NotFinite else Inr (ll / real (mle_nobs mdl1), mdl1))
       else Inr (ll, mdl1)))"

subsection \<open>\<^verbatim>\<open>MLEResults\<close>: information criteria\<close>

record MLEResults =
  res_params :: "real list"
  res_loglikelihood :: "real list"
  res_loglikelihood_burn :: nat
  res_nobs :: nat

text \<open>\<^verbatim>\<open>self.loglikelihood[self.loglikelihood_burn:].sum()\<close>\<close>

definition llf :: "MLEResults \<Rightarrow> real" where
  "llf r = sum_list (drop (res_loglikelihood_burn r) (res_loglikelihood r))"

text \<open>\<^verbatim>\<open>-2*self.llf + 2*self.params.shape[0]\<close>\<close>

definition aic :: "MLEResults \<Rightarrow> real" where
  "aic r = - 2 * llf r + 2 * real (length (res_params r))"

text \<open>
  \<^verbatim>\<open>-2*self.llf + self.params.shape[0]*np.log(self.nobs)\<close>. At \<open>nobs = 0\<close> numpy's
  logarithm is minus infinity, so the value is not a real number.
\<close>

definition bic :: "MLEResults \<Rightarrow> real option" where
  "bic r =
     (if res_nobs r = 0 then None
      else Some (- 2 * llf r + real (length (res_params r)) * ln (real (res_nobs r))))"

subsection \<open>\<^verbatim>\<open>SARIMAXResults.predict\<close> and \<^verbatim>\<open>forecast\<close>\<close>

definition msg_out_of_sample :: string where
  "msg_out_of_sample = ''Out-of-sample forecasting in a model with a regression component requires additional exogenous values via the `exog` argument''"

text \<open>The message continues with the required and the given shape, left out here.\<close>

definition msg_exog_shape :: string where
  "msg_exog_shape = ''Provided exogenous values are not of the appropriate shape.''"

text \<open>
  \<^verbatim>\<open>_get_predict_start\<close> and \<^verbatim>\<open>_get_predict_end\<close> belong to the time-series base
  model and are parameters; the second returns the end of the in-sample part and the
  number of out-of-sample steps. The rest of the method (the extended model and the base
  class's \<^verbatim>\<open>predict\<close>) is the parameter \<open>base_predict\<close>, told whether the exogenous
  values are used. The results object copies \<^verbatim>\<open>mle_regression\<close>,
  \<^verbatim>\<open>state_regression\<close> and \<^verbatim>\<open>k_exog\<close> from the model \<open>m\<close>. In the condition,
  Python's \<^verbatim>\<open>and\<close> binds tighter than \<^verbatim>\<open>or\<close>.
\<close>

definition predict ::
  "(int \<Rightarrow> error + int) \<Rightarrow> (int option \<Rightarrow> error + (int \<times> nat)) \<Rightarrow>
   (int \<Rightarrow> int option \<Rightarrow> exog_shape option \<Rightarrow> bool \<Rightarrow> error + 'f) \<Rightarrow>
   'a SARIMAX_scheme \<Rightarrow> int option \<Rightarrow> int option \<Rightarrow> exog_shape option \<Rightarrow> error + 'f" where
  "predict get_predict_start get_predict_end base_predict m start end1 exog =
     (let start1 = (case start of None \<Rightarrow> 0 | Some s \<Rightarrow> s) in
      bind_err (get_predict_start start1) (\<lambda>start2.
      bind_err (get_predict_end end1) (\<lambda>(end2, out_of_sample).
        if (out_of_sample \<noteq> 0 \<and> mle_regression m) \<or> state_regression m then
          (case exog of
             None \<Rightarrow> Inl (ValueError msg_out_of_sample)
           | Some e \<Rightarrow>
               if e \<noteq> Mat out_of_sample (k_exog m) then Inl (ValueError msg_exog_shape)
               else base_predict start1 end1 (Some e) True)
        else base_predict start1 end1 exog False)))"

text \<open>
  \<^verbatim>\<open>forecast(steps, exog)\<close> reaches, through \<^verbatim>\<open>MLEResults.forecast\<close>,
  \<^verbatim>\<open>self.predict(start=self.nobs, end=self.nobs+steps-1, exog=exog)\<close>.
\<close>

definition forecast ::
  "(int \<Rightarrow> error + int) \<Rightarrow> (int option \<Rightarrow> error + (int \<times> nat)) \<Rightarrow>
   (int \<Rightarrow> int option \<Rightarrow> exog_shape option \<Rightarrow> bool \<Rightarrow> error + 'f) \<Rightarrow>
   'a SARIMAX_scheme \<Rightarrow> nat \<Rightarrow> int \<Rightarrow> exog_shape option \<Rightarrow> error + 'f" where
  "forecast get_predict_start get_predict_end base_predict m nobs steps exog =
     predict get_predict_start get_predict_end base_predict m
       (Some (int nobs)) (Some (int nobs + steps - 1)) exog"

subsection \<open>Concrete results and models\<close>

text \<open>
  A results object without parameters, as \<^verbatim>\<open>order=(0,0,0)\<close> without trend, regressors
  or measurement error gives (all segments of the parameter vector are empty), and one
  with a single parameter; ten observations each.
\<close>

definition results_no_params :: MLEResults where
  "results_no_params =
     \<lparr> res_params = [], res_loglikelihood = replicate 10 (- 1), res_loglikelihood_burn = 0,
       res_nobs = 10 \<rparr>"

definition results_one_param :: MLEResults where
  "results_one_param =
     \<lparr> res_params = [1 / 2], res_loglikelihood = replicate 10 (- 1), res_loglikelihood_burn = 0,
       res_nobs = 10 \<rparr>"

text \<open>A results object of a sample without observations.\<close>

definition results_no_obs :: MLEResults where
  "results_no_obs =
     \<lparr> res_params = [1 / 2], res_loglikelihood = [], res_loglikelihood_burn = 0,
       res_nobs = 0 \<rparr>"

text \<open>A model of four observations whose representation is the parameter vector itself.\<close>

definition toy_model :: "real list MLEModel" where
  "toy_model = \<lparr> mle_params = None, mle_nobs = 4, mle_rep = [] \<rparr>"

section \<open>The parameter transform\<close>

subsection \<open>Array slices and indices\<close>

text \<open>
  A bound of a Python slice over an array of length \<open>n\<close>: a negative bound counts from
  the end, and every bound is clipped to the array.
\<close>

definition slice_bound :: "nat \<Rightarrow> int \<Rightarrow> nat" where
  "slice_bound n i = (if i < 0 then nat (max 0 (int n + i)) else min (nat i) n)"

text \<open>\<^verbatim>\<open>xs[a:b]\<close>\<close>

definition slice :: "int \<Rightarrow> int \<Rightarrow> 'a list \<Rightarrow> 'a list" where
  "slice a b xs = drop (slice_bound (length xs) a) (take (slice_bound (length xs) b) xs)"

definition msg_broadcast :: string where
  "msg_broadcast = ''could not broadcast input array''"

text \<open>
  \<^verbatim>\<open>xs[a:b] = v\<close> for arrays: the value must have the length of the slice, or length
  one, in which case it is repeated; otherwise numpy raises \<^verbatim>\<open>ValueError\<close>.
\<close>

definition slice_assign :: "int \<Rightarrow> int \<Rightarrow> 'a list \<Rightarrow> 'a list \<Rightarrow> error + 'a list" where
  "slice_assign a b v xs =
     (let i = slice_bound (length xs) a;
          j = slice_bound (length xs) b;
          len = j - i
      in if length v = len then Inr (take i xs @ v @ drop (i + len) xs)
         else if length v = 1 then Inr (take i xs @ replicate len (hd v) @ drop (i + len) xs)
         else Inl (ValueError msg_broadcast))"

text \<open>
  The position that an integer index denotes in an array of length \<open>n\<close>: indices from
  \<open>-n\<close> to \<open>-1\<close> count from the end, and an index outside \<open>-n \<dots> n - 1\<close> denotes
  no position.
\<close>

definition array_position :: "nat \<Rightarrow> int \<Rightarrow> nat option" where
  "array_position n i =
     (if i < - int n \<or> int n \<le> i then None
      else if i < 0 then Some (nat (i + int n))
      else Some (nat i))"

text \<open>\<^verbatim>\<open>xs[i]\<close> and \<^verbatim>\<open>xs[i] = v\<close> with an integer index.\<close>

definition array_get :: "'a list \<Rightarrow> int \<Rightarrow> error + 'a" where
  "array_get xs i =
     (case array_position (length xs) i of
        None \<Rightarrow> Inl IndexError
      | Some p \<Rightarrow> Inr (xs ! p))"

definition array_set :: "'a list \<Rightarrow> int \<Rightarrow> 'a \<Rightarrow> error + 'a list" where
  "array_set xs i v =
     (case array_position (length xs) i of
        None \<Rightarrow> Inl IndexError
      | Some p \<Rightarrow> Inr (xs[p := v]))"

subsection \<open>\<^verbatim>\<open>transform_params\<close> and \<^verbatim>\<open>untransform_params\<close>\<close>

text \<open>
  Both methods walk the parameter vector with the two local variables \<^verbatim>\<open>start\<close> and
  \<^verbatim>\<open>end\<close> and fill the output array, which starts as zeros of the input's shape.
\<close>

record cursor =
  cur_start :: int
  cur_end :: int
  cur_out :: "real list"

text \<open>
  One block of the form
  \<^verbatim>\<open>if guard: end += k; out[start:end] = h(src[start:end]); start += k\<close>.
\<close>

definition segment_step ::
  "bool \<Rightarrow> int \<Rightarrow> (real list \<Rightarrow> error + real list) \<Rightarrow> real list \<Rightarrow> cursor \<Rightarrow> error + cursor" where
  "segment_step guard k h src c =
     (if guard then
        let e = cur_end c + k in
        bind_err (h (slice (cur_start c) e src)) (\<lambda>v.
        bind_err (slice_assign (cur_start c) e v (cur_out c)) (\<lambda>out.
          Inr \<lparr> cur_start = cur_start c + k, cur_end = e, cur_out = out \<rparr>))
      else Inr c)"

text \<open>
  One block of the form \<^verbatim>\<open>if guard: out[start] = h(src[start])\<close>, followed by
  \<^verbatim>\<open>start += 1; end += 1\<close> if \<open>advance\<close> (the last block of each method has these
  two lines commented out).
\<close>

definition scalar_step ::
  "bool \<Rightarrow> bool \<Rightarrow> (real \<Rightarrow> error + real) \<Rightarrow> real list \<Rightarrow> cursor \<Rightarrow> error + cursor" where
  "scalar_step guard advance h src c =
     (if guard then
        bind_err (array_get src (cur_start c)) (\<lambda>x.
        bind_err (h x) (\<lambda>y.
        bind_err (array_set (cur_out c) (cur_start c) y) (\<lambda>out.
          Inr (if advance
               then \<lparr> cur_start = cur_start c + 1, cur_end = cur_end c + 1, cur_out = out \<rparr>
               else c\<lparr> cur_out := out \<rparr>))))
      else Inr c)"

text \<open>The operations applied to the segments.\<close>

definition retain :: "real list \<Rightarrow> error + real list" where
  "retain xs = Inr xs"

definition squares :: "real list \<Rightarrow> error + real list" where
  "squares xs = Inr (map (\<lambda>x. x ^ 2) xs)"

definition square :: "real \<Rightarrow> error + real" where
  "square x = Inr (x ^ 2)"

text \<open>
  \<^verbatim>\<open>x**0.5\<close>: for a negative number numpy gives \<^verbatim>\<open>nan\<close>.
\<close>

definition root :: "real \<Rightarrow> error + real" where
  "root x = (if x < 0 then Inl NotFinite else Inr (sqrt x))"

definition roots :: "real list \<Rightarrow> error + real list" where
  "roots xs = (if list_ex (\<lambda>x. x < 0) xs then Inl NotFinite else Inr (map sqrt xs))"

text \<open>
  \<^verbatim>\<open>SARIMAX.transform_params\<close>. The function
  \<^verbatim>\<open>constrain_stationary_univariate\<close> of the tools module is the parameter
  \<open>constrain\<close>.
\<close>

definition transform_params ::
  "(real list \<Rightarrow> real list) \<Rightarrow> 'a SARIMAX_scheme \<Rightarrow> real list \<Rightarrow> error + real list" where
  "transform_params constrain m unconstrained =
     bind_err (segment_step (k_trend m > 0) (int (k_trend m)) retain unconstrained
                 \<lparr> cur_start = 0, cur_end = 0,
                   cur_out = replicate (length unconstrained) 0 \<rparr>) (\<lambda>c.
     bind_err (segment_step (mle_regression m) (int (k_exog m)) retain unconstrained c) (\<lambda>c.
     bind_err (segment_step (k_ar_params m > 0) (k_ar_params m)
                 (if enforce_stationarity m then (\<lambda>xs. Inr (constrain xs)) else retain)
                 unconstrained c) (\<lambda>c.
     bind_err (segment_step (k_ma_params m > 0) (k_ma_params m)
                 (if enforce_invertibility m then (\<lambda>xs. Inr (constrain xs)) else retain)
                 unconstrained c) (\<lambda>c.
     bind_err (segment_step (k_seasonal_ar m > 0) (k_seasonal_ar_params m)
                 (if enforce_stationarity m then (\<lambda>xs. Inr (constrain xs)) else retain)
                 unconstrained c) (\<lambda>c.
     bind_err (segment_step (k_seasonal_ma_params m > 0) (k_seasonal_ma_params m)
                 (if enforce_invertibility m then (\<lambda>xs. Inr (constrain xs)) else retain)
                 unconstrained c) (\<lambda>c.
     bind_err (segment_step (state_regression m \<and> time_varying_regression m) (int (k_exog m))
                 squares unconstrained c) (\<lambda>c.
     bind_err (scalar_step (measurement_error m) True square unconstrained c) (\<lambda>c.
     bind_err (scalar_step (state_error m) False square unconstrained c) (\<lambda>c.
     Inr (cur_out c))))))))))"

text \<open>
  \<^verbatim>\<open>SARIMAX.untransform_params\<close>, with
  \<^verbatim>\<open>unconstrain_stationary_univariate\<close> as the parameter \<open>unconstrain\<close>.
\<close>

definition untransform_params ::
  "(real list \<Rightarrow> real list) \<Rightarrow> 'a SARIMAX_scheme \<Rightarrow> real list \<Rightarrow> error + real list" where
  "untransform_params unconstrain m constrained =
     bind_err (segment_step (k_trend m > 0) (int (k_trend m)) retain constrained
                 \<lparr> cur_start = 0, cur_end = 0,
                   cur_out = replicate (length constrained) 0 \<rparr>) (\<lambda>c.
     bind_err (segment_step (mle_regression m) (int (k_exog m)) retain constrained c) (\<lambda>c.
     bind_err (segment_step (k_ar_params m > 0) (k_ar_params m)
                 (if enforce_stationarity m then (\<lambda>xs. Inr (unconstrain xs)) else retain)
                 constrained c) (\<lambda>c.
     bind_err (segment_step (k_ma_params m > 0) (k_ma_params m)
                 (if enforce_invertibility m then (\<lambda>xs. Inr (unconstrain xs)) else retain)
                 constrained c) (\<lambda>c.
     bind_err (segment_step (k_seasonal_ar m > 0) (k_seasonal_ar_params m)
                 (if enforce_stationarity m then (\<lambda>xs. Inr (unconstrain xs)) else retain)
                 constrained c) (\<lambda>c.
     bind_err (segment_step (k_seasonal_ma_params m > 0) (k_seasonal_ma_params m)
                 (if enforce_invertibility m then (\<lambda>xs. Inr (unconstrain xs)) else retain)
                 constrained c) (\<lambda>c.
     bind_err (segment_step (state_regression m \<and> time_varying_regression m) (int (k_exog m))
                 roots constrained c) (\<lambda>c.
     bind_err (scalar_step (measurement_error m) True root constrained c) (\<lambda>c.
     bind_err (scalar_step (state_error m) False root constrained c) (\<lambda>c.
     Inr (cur_out c))))))))))"

text \<open>
  The layout of a parameter vector \<open>t @ x @ a @ b @ sa @ sb @ ev @ mv @ sv\<close> that the
  two methods walk: the length of each segment is what its block advances by, and zero
  where the block's guard is false.
\<close>

definition param_layout ::
  "'a SARIMAX_scheme \<Rightarrow> real list \<Rightarrow> real list \<Rightarrow> real list \<Rightarrow> real list \<Rightarrow> real list \<Rightarrow>
   real list \<Rightarrow> real list \<Rightarrow> real list \<Rightarrow> real list \<Rightarrow> bool" where
  "param_layout m t x a b sa sb ev mv sv \<longleftrightarrow>
     length t = k_trend m \<and>
     length x = (if mle_regression m then k_exog m else 0) \<and>
     int (length a) = (if k_ar_params m > 0 then k_ar_params m else 0) \<and>
     int (length b) = (if k_ma_params m > 0 then k_ma_params m else 0) \<and>
     int (length sa) = (if k_seasonal_ar m > 0 then k_seasonal_ar_params m else 0) \<and>
     int (length sb) = (if k_seasonal_ma_params m > 0 then k_seasonal_ma_params m else 0) \<and>
     length ev = (if state_regression m \<and> time_varying_regression m then k_exog m else 0) \<and>
     length mv = (if measurement_error m then 1 else 0) \<and>
     length sv = (if state_error m then 1 else 0)"

text \<open>
  The length of the parameter vector that the two methods walk: the sum of what the
  blocks advance by.
\<close>

definition walk_length :: "'a SARIMAX_scheme \<Rightarrow> nat" where
  "walk_length m =
     k_trend m
     + (if mle_regression m then k_exog m else 0)
     + (if k_ar_params m > 0 then nat (k_ar_params m) else 0)
     + (if k_ma_params m > 0 then nat (k_ma_params m) else 0)
     + (if k_seasonal_ar m > 0 then nat (k_seasonal_ar_params m) else 0)
     + (if k_seasonal_ma_params m > 0 then nat (k_seasonal_ma_params m) else 0)
     + (if state_regression m \<and> time_varying_regression m then k_exog m else 0)
     + (if measurement_error m then 1 else 0)
     + (if state_error m then 1 else 0)"

text \<open>
  The skeleton that the two methods share, with the operations on the stationarity
  segments (\<open>f\<close>), on the segment of regression variances (\<open>var\<close>) and on the two
  scalar variances (\<open>sc\<close>) left open. It is used to reason about both methods at once.
\<close>

definition walk_params ::
  "(real list \<Rightarrow> real list) \<Rightarrow> (real list \<Rightarrow> error + real list) \<Rightarrow> (real \<Rightarrow> error + real) \<Rightarrow>
   'a SARIMAX_scheme \<Rightarrow> real list \<Rightarrow> error + real list" where
  "walk_params f var sc m src =
     bind_err (segment_step (k_trend m > 0) (int (k_trend m)) retain src
                 \<lparr> cur_start = 0, cur_end = 0, cur_out = replicate (length src) 0 \<rparr>) (\<lambda>c.
     bind_err (segment_step (mle_regression m) (int (k_exog m)) retain src c) (\<lambda>c.
     bind_err (segment_step (k_ar_params m > 0) (k_ar_params m)
                 (if enforce_stationarity m then (\<lambda>xs. Inr (f xs)) else retain) src c) (\<lambda>c.
     bind_err (segment_step (k_ma_params m > 0) (k_ma_params m)
                 (if enforce_invertibility m then (\<lambda>xs. Inr (f xs)) else retain) src c) (\<lambda>c.
     bind_err (segment_step (k_seasonal_ar m > 0) (k_seasonal_ar_params m)
                 (if enforce_stationarity m then (\<lambda>xs. Inr (f xs)) else retain) src c) (\<lambda>c.
     bind_err (segment_step (k_seasonal_ma_params m > 0) (k_seasonal_ma_params m)
                 (if enforce_invertibility m then (\<lambda>xs. Inr (f xs)) else retain) src c) (\<lambda>c.
     bind_err (segment_step (state_regression m \<and> time_varying_regression m) (int (k_exog m))
                 var src c) (\<lambda>c.
     bind_err (scalar_step (measurement_error m) True sc src c) (\<lambda>c.
     bind_err (scalar_step (state_error m) False sc src c) (\<lambda>c.
     Inr (cur_out c))))))))))"

section \<open>Starting parameters\<close>

text \<open>
  The variance estimate of \<^verbatim>\<open>_conditional_sum_squares\<close>: the empty list \<^verbatim>\<open>[]\<close> when
  nothing was estimated, a number, or \<^verbatim>\<open>nan\<close> (the mean of no residuals).
\<close>

datatype variance = NoVariance | Variance real | VarianceNaN

definition msg_trend_data :: string where
  "msg_trend_data = ''Trend data must be provided if `k_trend` > 0.''"

definition msg_nonstationary :: string where
  "msg_nonstationary = ''Non-stationary starting autoregressive parameters found with `enforce_stationarity` set to True.''"

definition msg_noninvertible :: string where
  "msg_noninvertible = ''non-invertible starting MA parameters found with `enforce_invertibility` set to True.''"

definition msg_noninvertible_seasonal :: string where
  "msg_noninvertible_seasonal = ''non-invertible starting seasonal moving average parameters found with `enforce_invertibility` set to True.''"

text \<open>
  \<^verbatim>\<open>SARIMAX._conditional_sum_squares\<close>. Its two least-squares fits are built on
  \<^verbatim>\<open>lagmat\<close> and \<^verbatim>\<open>np.linalg.pinv\<close>, which are outside the sources, and are
  parameters: \<open>ar_residuals endog k\<close> is the fit of lines 641 to 644 and returns the
  residuals of the AR(\<open>k\<close>) model; \<open>regress\<close> is the fit of lines 647 to 662 and
  returns the coefficients \<^verbatim>\<open>params\<close> and the residuals. The check of the trend
  data, the extraction of the estimates from \<^verbatim>\<open>params\<close> and the variance are as in
  the source; \<^verbatim>\<open>params_trend = params[offset]\<close> is a single number. The arguments
  \<^verbatim>\<open>k_ar\<close>, \<^verbatim>\<open>polynomial_ar\<close>, \<^verbatim>\<open>k_ma\<close>, \<^verbatim>\<open>polynomial_ma\<close> and \<^verbatim>\<open>k_trend\<close>
  are written \<open>kar\<close>, \<open>poly_ar\<close>, \<open>kma\<close>, \<open>poly_ma\<close> and \<open>ktrend\<close>.
\<close>

definition conditional_sum_squares ::
  "(real list \<Rightarrow> nat \<Rightarrow> error + real list) \<Rightarrow>
   (real list \<Rightarrow> nat \<Rightarrow> nat list \<Rightarrow> nat \<Rightarrow> nat list \<Rightarrow> nat \<Rightarrow> real list list \<Rightarrow> real list option \<Rightarrow>
      error + (real list \<times> real list)) \<Rightarrow>
   real list \<Rightarrow> nat \<Rightarrow> nat list \<Rightarrow> nat \<Rightarrow> nat list \<Rightarrow> nat \<Rightarrow> real list list option \<Rightarrow>
   error + (real list \<times> real list \<times> real list \<times> variance)" where
  "conditional_sum_squares ar_residuals regress endog kar poly_ar kma poly_ma
       ktrend trend_data =
     (let k = 2 * kma in
      bind_err
        (if kar + kma + ktrend > 0 then
           bind_err (if kma > 0 then bind_err (ar_residuals endog k) (\<lambda>r. Inr (Some r))
                     else Inr None) (\<lambda>residuals.
           bind_err (if ktrend > 0 \<and> trend_data = None then Inl (ValueError msg_trend_data)
                     else Inr (case trend_data of None \<Rightarrow> [] | Some td \<Rightarrow> td)) (\<lambda>td.
           bind_err (regress endog kar poly_ar kma poly_ma ktrend td residuals)
             (\<lambda>fit. Inr (Some fit))))
         else Inr None) (\<lambda>fit.
      let params = (case fit of None \<Rightarrow> [] | Some (p, r) \<Rightarrow> p) in
      bind_err (if ktrend > 0 then bind_err (array_get params 0) (\<lambda>v. Inr ([v], ktrend))
                else Inr ([], 0)) (\<lambda>(params_trend, offset1).
        let params_ar = (if kar > 0 then slice (int offset1) (int (kar + offset1)) params else []);
            offset2 = (if kar > 0 then offset1 + kar else offset1);
            params_ma = (if kma > 0 then slice (int offset2) (int (kma + offset2)) params else []);
            params_variance =
              (case fit of
                 None \<Rightarrow> NoVariance
               | Some (p, residuals) \<Rightarrow>
                   (let r = drop kma residuals in
                    if r = [] then VarianceNaN
                    else Variance (sum_list (map (\<lambda>x. x ^ 2) r) / real (length r))))
        in Inr (params_trend, params_ar, params_ma, params_variance))))"

text \<open>
  The property \<^verbatim>\<open>SARIMAX.start_params\<close>. The series \<open>endog\<close> is the observed series
  after differencing, after the regression on the exogenous data and without missing
  values, and \<open>ols_exog\<close> are the coefficients of that regression (lines 695 to 718,
  built on \<^verbatim>\<open>diff\<close> and \<^verbatim>\<open>pinv\<close>); \<^verbatim>\<open>is_invertible\<close> of the tools module is a
  parameter. A result that would hold \<^verbatim>\<open>nan\<close> is \<open>NotFinite\<close>.
\<close>

definition start_params ::
  "(real list \<Rightarrow> nat \<Rightarrow> error + real list) \<Rightarrow>
   (real list \<Rightarrow> nat \<Rightarrow> nat list \<Rightarrow> nat \<Rightarrow> nat list \<Rightarrow> nat \<Rightarrow> real list list \<Rightarrow> real list option \<Rightarrow>
      error + (real list \<times> real list)) \<Rightarrow>
   (real list \<Rightarrow> bool) \<Rightarrow> 'a SARIMAX_scheme \<Rightarrow> real list \<Rightarrow> real list \<Rightarrow> real list list \<Rightarrow>
   error + real list" where
  "start_params ar_residuals regress is_invertible m endog ols_exog trend_data =
     (let params_exog = (if state_regression m then [] else if k_exog m > 0 then ols_exog else []) in
      bind_err (conditional_sum_squares ar_residuals regress endog (k_ar m) (polynomial_ar m)
                  (k_ma m) (polynomial_ma m) (k_trend m) (Some trend_data))
        (\<lambda>(params_trend, params_ar, params_ma, params_variance).
      if k_ar m > 0 \<and> enforce_stationarity m \<and> \<not> is_invertible (map uminus params_ar)
      then Inl (ValueError msg_nonstationary)
      else if k_ma m > 0 \<and> enforce_invertibility m \<and> \<not> is_invertible params_ma
      then Inl (ValueError msg_noninvertible)
      else
      bind_err (conditional_sum_squares ar_residuals regress endog (k_seasonal_ar m)
                  (polynomial_seasonal_ar m) (k_seasonal_ma m) (polynomial_seasonal_ma m) 0 None)
        (\<lambda>(unused, params_seasonal_ar, params_seasonal_ma, params_seasonal_variance).
      if k_seasonal_ar m > 0 \<and> enforce_stationarity m
         \<and> \<not> is_invertible (map uminus params_seasonal_ar)
      then Inl (ValueError msg_nonstationary)
      else if k_seasonal_ma m > 0 \<and> enforce_invertibility m
              \<and> \<not> is_invertible params_seasonal_ma
      then Inl (ValueError msg_noninvertible_seasonal)
      else
        let params_exog_variance =
              (if state_regression m \<and> time_varying_regression m then replicate (k_exog m) 1
               else []);
            params_variance1 =
              (if state_error m \<and> params_variance = NoVariance then
                 (if params_seasonal_variance \<noteq> NoVariance then params_seasonal_variance
                  else if k_exog m > 0 then Variance (sum_list (map (\<lambda>x. x * x) endog))
                  else Variance 1)
               else params_variance);
            params_measurement_variance = (if measurement_error m then [1] else []);
            coefficients = params_trend @ params_exog @ params_ar @ params_ma
                           @ params_seasonal_ar @ params_seasonal_ma @ params_exog_variance
                           @ params_measurement_variance
        in case params_variance1 of
             NoVariance \<Rightarrow> Inr coefficients
           | Variance v \<Rightarrow> Inr (coefficients @ [v])
           | VarianceNaN \<Rightarrow> Inl NotFinite)))"

text \<open>
  Stand-ins for the numerical parameters, used to evaluate \<open>start_params\<close>: a
  regression that always estimates the single coefficient 2 with three zero residuals,
  and the invertibility test of a polynomial of degree at most one.
\<close>

definition regress_two ::
  "real list \<Rightarrow> nat \<Rightarrow> nat list \<Rightarrow> nat \<Rightarrow> nat list \<Rightarrow> nat \<Rightarrow> real list list \<Rightarrow> real list option \<Rightarrow>
   error + (real list \<times> real list)" where
  "regress_two endog kar poly_ar kma poly_ma ktrend td residuals
     = Inr ([2], [0, 0, 0])"

definition is_invertible1 :: "real list \<Rightarrow> bool" where
  "is_invertible1 ps = list_all (\<lambda>p. \<bar>p\<bar> < 1) ps"

section \<open>Initialisation of the state\<close>

subsection \<open>Matrices\<close>

text \<open>
  A matrix is the list of its rows. The matrices of the representation that the
  initialisation reads are time-invariant, so that \<^verbatim>\<open>m[..., 0]\<close> is the matrix itself.
\<close>

type_synonym matrix = "real list list"

text \<open>\<^verbatim>\<open>xs[a:b]\<close> where \<^verbatim>\<open>b\<close> may be \<^verbatim>\<open>None\<close>.\<close>

definition slice_opt :: "int \<Rightarrow> int option \<Rightarrow> 'a list \<Rightarrow> 'a list" where
  "slice_opt a b xs =
     (case b of None \<Rightarrow> drop (slice_bound (length xs) a) xs | Some e \<Rightarrow> slice a e xs)"

text \<open>\<^verbatim>\<open>np.eye(n) * v\<close>\<close>

definition scaled_eye :: "nat \<Rightarrow> real \<Rightarrow> matrix" where
  "scaled_eye n v = map (\<lambda>i. map (\<lambda>j. if i = j then v else 0) [0..<n]) [0..<n]"

definition msg_shapes :: string where
  "msg_shapes = ''shapes not aligned''"

text \<open>
  \<^verbatim>\<open>np.dot(A, B)\<close> for matrices: every row of \<open>A\<close> must be as long as \<open>B\<close> has rows.
\<close>

definition dot :: "matrix \<Rightarrow> matrix \<Rightarrow> error + matrix" where
  "dot A B =
     (if list_all (\<lambda>row. length row = length B) A
      then Inr (map (\<lambda>row. map (\<lambda>col. sum_list (map2 (*) row col)) (transpose B)) A)
      else Inl (ValueError msg_shapes))"

text \<open>
  \<^verbatim>\<open>M[a:b, a:b]\<close> and \<^verbatim>\<open>M[a:b, a:b] = P\<close>. The assigned matrix must have the shape of
  the block (numpy would also accept a shape that broadcasts to it; the solution of the
  Lyapunov equation has the shape of the block).
\<close>

definition block :: "int \<Rightarrow> int option \<Rightarrow> matrix \<Rightarrow> matrix" where
  "block a b M = map (slice_opt a b) (slice_opt a b M)"

definition set_block :: "int \<Rightarrow> int option \<Rightarrow> matrix \<Rightarrow> matrix \<Rightarrow> error + matrix" where
  "set_block a b M P =
     (let n = length M;
          i = slice_bound n a;
          j = (case b of None \<Rightarrow> n | Some e \<Rightarrow> slice_bound n e);
          len = j - i
      in if length P = len \<and> list_all (\<lambda>row. length row = len) P
         then Inr (map (\<lambda>r. if i \<le> r \<and> r < j
                             then take i (M ! r) @ (P ! (r - i)) @ drop j (M ! r)
                             else M ! r) [0..<n])
         else Inl (ValueError msg_broadcast))"

subsection \<open>The model with its representation\<close>

text \<open>
  What the base class holds as the initialisation of the state: approximately diffuse
  with a variance (\<open>None\<close> for the default), known mean and covariance, or stationary.
\<close>

datatype initialization =
    ApproximateDiffuse "real option"
  | Known "real list" matrix
  | Stationary

text \<open>
  The model together with the matrices that \<^verbatim>\<open>initialize_state\<close> reads, the default
  variance \<^verbatim>\<open>initial_variance\<close>, and the initialisations that the base class has been
  asked for, the latest last (the base class keeps the latest).
\<close>

record Representation = SARIMAX +
  transition :: matrix
  selection :: matrix
  state_cov :: matrix
  initial_variance :: real
  initializations :: "initialization list"

text \<open>
  Modelled from the spec: the initialisers of the base class (the representation module,
  outside the sources), "Known: caller supplies exact initial mean/covariance" and
  "Approximate diffuse: mean zero, covariance variance times the identity", are modelled
  by recording the initialisation asked for.
\<close>

definition base_initialize :: "Representation \<Rightarrow> initialization \<Rightarrow> Representation" where
  "base_initialize r i = r\<lparr> initializations := initializations r @ [i] \<rparr>"

text \<open>The three overriding methods of \<^verbatim>\<open>SARIMAX\<close> (lines 454 to 464).\<close>

definition initialize_known :: "Representation \<Rightarrow> real list \<Rightarrow> matrix \<Rightarrow> Representation" where
  "initialize_known r initial_state initial_state_cov =
     base_initialize (r\<lparr> priv_manual_initialization := True \<rparr>)
       (Known initial_state initial_state_cov)"

definition initialize_approximate_diffuse :: "Representation \<Rightarrow> real option \<Rightarrow> Representation" where
  "initialize_approximate_diffuse r variance =
     base_initialize (r\<lparr> priv_manual_initialization := True \<rparr>) (ApproximateDiffuse variance)"

definition initialize_stationary :: "Representation \<Rightarrow> Representation" where
  "initialize_stationary r =
     base_initialize (r\<lparr> priv_manual_initialization := True \<rparr>) Stationary"

text \<open>
  \<^verbatim>\<open>SARIMAX.initialize_state\<close> (lines 466 to 511), statement by statement;
  \<^verbatim>\<open>solve_discrete_lyapunov\<close> of scipy is the parameter \<open>solve_lyapunov\<close>. The call of
  \<^verbatim>\<open>initialize_approximate_diffuse\<close> at line 474 is not followed by a \<^verbatim>\<open>return\<close>,
  so the statements after it run in both cases; the last statement calls the
  base class's \<^verbatim>\<open>initialize_known\<close>.
\<close>

definition initialize_state ::
  "(matrix \<Rightarrow> matrix \<Rightarrow> error + matrix) \<Rightarrow> Representation \<Rightarrow> real option \<Rightarrow>
   error + Representation" where
  "initialize_state solve_lyapunov r variance =
     (if priv_manual_initialization r then Inr r
      else
        let r1 = (if \<not> enforce_stationarity r then initialize_approximate_diffuse r variance
                  else r);
            variance1 = (case variance of None \<Rightarrow> initial_variance r1 | Some v \<Rightarrow> v);
            initial_state = replicate (k_states r1) 0;
            initial_state_cov = scaled_eye (k_states r1) variance1;
            start = (if state_regression r1 then - (int (k_exog r1) + int (priv_k_order r1))
                     else - int (priv_k_order r1));
            end1 = (if state_regression r1
                    then (if k_exog r1 > 0 then Some (- int (k_exog r1)) else None)
                    else None)
        in
        bind_err
          (if priv_k_order r1 > 0 then
             let selection_stationary = slice_opt start end1 (selection r1) in
             bind_err (dot selection_stationary (state_cov r1)) (\<lambda>sq.
             bind_err (dot sq (transpose selection_stationary)) (\<lambda>selected_state_cov_stationary.
             bind_err (solve_lyapunov (block start end1 (transition r1))
                         selected_state_cov_stationary) (\<lambda>initial_state_cov_stationary.
               set_block start end1 initial_state_cov initial_state_cov_stationary)))
           else Inr initial_state_cov) (\<lambda>initial_state_cov1.
        Inr (base_initialize r1 (Known initial_state initial_state_cov1))))"

subsection \<open>A concrete model\<close>

text \<open>
  The model of \<^verbatim>\<open>SARIMAX(endog, order=(1,0,0), enforce_stationarity=False)\<close> after
  \<^verbatim>\<open>update\<close> has written the parameters \<open>[1/2, 1]\<close> into the matrices: the transition
  matrix is \<open>(1/2)\<close>, the selection matrix \<open>(1)\<close> and the state covariance \<open>(1)\<close>; the
  default variance of the base class is \<open>10\<^sup>6\<close>, and no initialisation has happened.
\<close>

definition ar1_representation :: "SARIMAX \<Rightarrow> Representation" where
  "ar1_representation m =
     SARIMAX.extend m (Representation.fields [[1 / 2]] [[1]] [[1]] 1000000 [])"

text \<open>
  The solution of the discrete Lyapunov equation \<open>P = a P a + q\<close> for matrices of one
  row and one column, \<open>P = q / (1 - a\<^sup>2)\<close>; it stands for scipy's solver on such
  matrices.
\<close>

definition solve_lyapunov_1x1 :: "matrix \<Rightarrow> matrix \<Rightarrow> error + matrix" where
  "solve_lyapunov_1x1 A Q =
     (case (A, Q) of
        ([[a]], [[q]]) \<Rightarrow> Inr [[q / (1 - a * a)]]
      | _ \<Rightarrow> Inl (ValueError msg_shapes))"

section \<open>Properties of the constructor\<close>

lemmas init_defs =
  sarimax_init_def sarimax_attributes_def lag_polynomial_def seasonal_lag_polynomial_def
  trend_polynomial_def model_order_def exog_columns_def Let_def

text \<open>
  C1. The parameter count \<open>k_params\<close> should be the sum of the lengths of the
  parameter segments. For \<^verbatim>\<open>order=(1,0,0), seasonal_order=(0,0,1,4)\<close> the constructor
  sets \<open>k_params = 2\<close>, while the segments that \<^verbatim>\<open>update\<close> slices (one AR
  coefficient, one seasonal MA coefficient, the state variance) have total length 3: the
  sum at lines 344 to 349 adds \<open>k_seasonal_ar_params\<close> twice and never adds
  \<open>k_seasonal_ma_params\<close>.
\<close>

theorem C1_k_params_misses_seasonal_ma:
  "map_sum id (\<lambda>m. (k_params m, sum_list (param_segments m))) (sarimax_init spec_seasonal_ma)
     = Inr (2, 3)"
  by (simp add: spec_seasonal_ma_def default_spec_def init_defs param_segments_def
        eval_nat_numeral)

text \<open>
  C3. The number of states should be the sum of the order, differencing and regression
  components. For \<^verbatim>\<open>order=(0,0,0), seasonal_order=(1,0,0,4)\<close> the combined AR order
  is 4, so the order component is 4, but the constructor zeroes \<^verbatim>\<open>_k_order\<close> as
  soon as the non-seasonal orders are both zero and builds a model with no state.
\<close>

theorem C3_k_states_pure_seasonal:
  "map_sum id (\<lambda>m. (k_ar m + k_seasonal_ar m, priv_k_order m, k_states m, specified_k_states m))
     (sarimax_init spec_pure_seasonal_ar) = Inr (4, 0, 0, 4)"
  by (simp add: spec_pure_seasonal_ar_def default_spec_def init_defs specified_k_states_def
        specified_order_component_def eval_nat_numeral)

subsection \<open>What the constructor computes in general\<close>

lemma sarimax_init_attributes:
  assumes "sarimax_init a = Inr m"
  shows "m = sarimax_attributes a" and "\<not> arg_time_varying_regression a"
  using assms by (auto simp: sarimax_init_def split: if_splits)

text \<open>
  The number of states of a constructed model, with the order component as the code
  computes it: zero as soon as the two non-seasonal orders are zero.
\<close>

lemma k_states_formula:
  assumes "sarimax_init a = Inr m"
  shows "k_states m = priv_k_order m
           + (if simple_differencing m then 0 else k_diff m + k_seasons m * k_seasonal_diff m)
           + (if state_regression m then k_exog m else 0)"
    and "priv_k_order m = (if k_ar m = 0 \<and> k_ma m = 0 then 0
                           else max (k_ar m + k_seasonal_ar m) (k_ma m + k_seasonal_ma m + 1))"
  unfolding sarimax_init_attributes(1) [OF assms]
  by (auto simp: sarimax_attributes_def model_order_def Let_def)

text \<open>
  The number of states agrees with the specification's formula exactly for the models
  that have a non-seasonal AR or MA order, or no seasonal order at all.
\<close>

lemma k_states_specified_iff:
  assumes "sarimax_init a = Inr m"
  shows "k_states m = specified_k_states m \<longleftrightarrow>
         0 < k_ar m \<or> 0 < k_ma m \<or> (k_seasonal_ar m = 0 \<and> k_seasonal_ma m = 0)"
  unfolding k_states_formula [OF assms] specified_k_states_def specified_order_component_def
  by auto

text \<open>
  The difference between \<open>k_params\<close> and the total length of the parameter segments of a
  constructed model: the seasonal AR count taken in place of the seasonal MA count, and
  the one that is added whether or not there is a state error.
\<close>

lemma k_params_versus_segments:
  assumes "sarimax_init a = Inr m"
  shows "k_params m - sum_list (param_segments m)
         = k_seasonal_ar_params m - k_seasonal_ma_params m + (if state_error m then 0 else 1)"
  unfolding sarimax_init_attributes(1) [OF assms]
  using sarimax_init_attributes(2) [OF assms]
  by (simp add: sarimax_attributes_def param_segments_def Let_def)

section \<open>Properties of the maximum-likelihood driver\<close>

text \<open>
  The number of minimisation passes: two exactly when the condition of line 153 holds,
  which Python reads as \<^verbatim>\<open>(bfgs_tune and method == 'lbfgs') or method == 'bfgs'\<close>.
\<close>

lemma fit_number_of_passes:
  "fit minimize untransform default_start sp tr method maxiter bfgs_tune kwargs = Inr (calls, p) \<Longrightarrow>
   length calls = (if (bfgs_tune \<and> method = ''lbfgs'') \<or> method = ''bfgs'' then 2 else 1)"
  by (auto simp: fit_def bind_err_def Let_def split: sum.splits option.splits if_splits prod.splits)

text \<open>
  C5. With \<^verbatim>\<open>bfgs_tune=False\<close> no second minimisation pass should run. For
  \<^verbatim>\<open>fit(start_params=x0, transformed=False, method='bfgs', bfgs_tune=False)\<close> the
  optimiser is called twice, the second time with \<^verbatim>\<open>approx_grad=False\<close>, whatever
  the optimiser and the starting point are.
\<close>

theorem C5_second_pass_without_bfgs_tune:
  "map_sum id (\<lambda>(calls, p). map (\<lambda>c. approx_grad (opt_kwargs c)) calls)
     (fit minimize untransform default_start (Some x0) False ''bfgs'' maxiter False no_kwargs)
   = Inr [Some True, Some False]"
  by (simp add: fit_def bind_err_def setdefault_def no_kwargs_def Let_def)

text \<open>
  C8. For a model with at least one observation, the average log-likelihood is the
  log-likelihood divided by the number of observations: evaluated from the same model
  with the same arguments, \<^verbatim>\<open>loglike\<close> with \<^verbatim>\<open>average_loglike=True\<close> returns the
  value of \<^verbatim>\<open>average_loglike=False\<close> divided by \<^verbatim>\<open>nobs\<close>, leaves the model in
  the same state, and raises exactly when the other raises.
\<close>

theorem C8_average_loglike:
  assumes "0 < mle_nobs mdl"
  shows "loglike transform rebuild kalman_loglike ps True transformed set_params mdl =
         bind_err (loglike transform rebuild kalman_loglike ps False transformed set_params mdl)
           (\<lambda>(v, mdl1). Inr (v / real (mle_nobs mdl), mdl1))"
  using assms
  by (auto simp: loglike_def update_def bind_err_def Let_def
           split: sum.splits option.splits prod.splits)

theorem C8_average_loglike_witness:
  "0 < mle_nobs toy_model \<and>
   loglike Inr (\<lambda>ps rep. Inr ps) (\<lambda>mdl. Inr (sum_list (mle_rep mdl))) (Some [1, 2, 3]) True True True
     toy_model
   = Inr (3 / 2, \<lparr> mle_params = Some [1, 2, 3], mle_nobs = 4, mle_rep = [1, 2, 3] \<rparr>)"
proof -
  have pos: "0 < mle_nobs toy_model" by (simp add: toy_model_def)
  show ?thesis
    using pos C8_average_loglike [OF pos, of Inr "\<lambda>ps rep. Inr ps"
        "\<lambda>mdl. Inr (sum_list (mle_rep mdl))" "Some [1, 2, 3]" True True]
    by (simp add: loglike_def update_def bind_err_def toy_model_def)
qed

lemma exp_two_less_ten: "exp 2 < (10::real)"
proof -
  have "exp (2::real) = exp 1 * exp 1" by (simp flip: exp_add)
  also have "\<dots> \<le> 3 * 3" by (intro mult_mono exp_le) auto
  finally show ?thesis by simp
qed

text \<open>
  C9 as stated fails for a result without parameters: with ten observations (more than
  \<open>e\<^sup>2\<close>) AIC and BIC are equal, so AIC is not less than BIC.
\<close>

theorem C9_no_params_counterexample:
  "exp 2 < real (res_nobs results_no_params) \<and> bic results_no_params = Some (aic results_no_params)"
  using exp_two_less_ten by (simp add: results_no_params_def aic_def bic_def)

text \<open>
  C9, amended. For every results object: AIC is \<open>-2 llf + 2 k\<close>, where \<open>k\<close> is the
  length of the parameter vector; with at least one observation BIC is
  \<open>-2 llf + k ln nobs\<close>, and without observations it is not a real number; if
  \<open>nobs > e\<^sup>2\<close> and there is at least one parameter, then AIC is less than BIC; and
  without parameters (and with at least one observation) AIC and BIC are equal.
\<close>

theorem C9_aic_less_bic:
  "aic r = - 2 * llf r + 2 * real (length (res_params r)) \<and>
   (0 < res_nobs r \<longrightarrow>
      bic r = Some (- 2 * llf r + real (length (res_params r)) * ln (real (res_nobs r)))) \<and>
   (res_nobs r = 0 \<longrightarrow> bic r = None) \<and>
   (exp 2 < real (res_nobs r) \<and> res_params r \<noteq> [] \<longrightarrow>
      (\<exists>b. bic r = Some b \<and> aic r < b)) \<and>
   (0 < res_nobs r \<and> res_params r = [] \<longrightarrow> bic r = Some (aic r))"
proof (intro conjI impI)
  show "aic r = - 2 * llf r + 2 * real (length (res_params r))"
    by (simp add: aic_def)
  show "bic r = Some (- 2 * llf r + real (length (res_params r)) * ln (real (res_nobs r)))"
    if "0 < res_nobs r"
    using that by (simp add: bic_def)
  show "bic r = None" if "res_nobs r = 0"
    using that by (simp add: bic_def)
  show "bic r = Some (aic r)" if "0 < res_nobs r \<and> res_params r = []"
    using that by (simp add: aic_def bic_def)
  show "\<exists>b. bic r = Some b \<and> aic r < b"
    if h: "exp 2 < real (res_nobs r) \<and> res_params r \<noteq> []"
  proof -
    have pos: "0 < real (res_nobs r)"
      using h exp_gt_zero [of "2::real"] by linarith
    then have nz: "res_nobs r \<noteq> 0" by auto
    have "ln (exp 2) < ln (real (res_nobs r))"
      using h pos by (simp del: ln_exp)
    then have "2 < ln (real (res_nobs r))" by simp
    moreover have "0 < real (length (res_params r))"
      using h by simp
    ultimately have "2 * real (length (res_params r))
                     < real (length (res_params r)) * ln (real (res_nobs r))"
      by (simp add: mult.commute)
    then show ?thesis using nz by (simp add: aic_def bic_def)
  qed
qed

theorem C9_aic_less_bic_witness:
  "(0 < res_nobs results_one_param \<and> exp 2 < real (res_nobs results_one_param) \<and>
    res_params results_one_param \<noteq> [] \<and>
    aic results_one_param
      = - 2 * llf results_one_param + 2 * real (length (res_params results_one_param)) \<and>
    bic results_one_param
      = Some (- 2 * llf results_one_param
              + real (length (res_params results_one_param))
                * ln (real (res_nobs results_one_param))) \<and>
    (\<exists>b. bic results_one_param = Some b \<and> aic results_one_param < b)) \<and>
   (0 < res_nobs results_no_params \<and> res_params results_no_params = [] \<and>
    bic results_no_params = Some (aic results_no_params)) \<and>
   (res_nobs results_no_obs = 0 \<and> bic results_no_obs = None)"
proof -
  have h0: "0 < res_nobs results_one_param"
    by (simp add: results_one_param_def)
  have h1: "exp 2 < real (res_nobs results_one_param)"
    using exp_two_less_ten by (simp add: results_one_param_def)
  have h2: "res_params results_one_param \<noteq> []"
    by (simp add: results_one_param_def)
  have h3: "0 < res_nobs results_no_params" "res_params results_no_params = []"
    by (simp_all add: results_no_params_def)
  have h4: "res_nobs results_no_obs = 0"
    by (simp add: results_no_obs_def)
  have one: "0 < res_nobs results_one_param \<and> exp 2 < real (res_nobs results_one_param) \<and>
    res_params results_one_param \<noteq> [] \<and>
    aic results_one_param
      = - 2 * llf results_one_param + 2 * real (length (res_params results_one_param)) \<and>
    bic results_one_param
      = Some (- 2 * llf results_one_param
              + real (length (res_params results_one_param))
                * ln (real (res_nobs results_one_param))) \<and>
    (\<exists>b. bic results_one_param = Some b \<and> aic results_one_param < b)"
    using h0 h1 h2 C9_aic_less_bic [of results_one_param] by blast
  have none: "0 < res_nobs results_no_params \<and> res_params results_no_params = [] \<and>
    bic results_no_params = Some (aic results_no_params)"
    using h3 C9_aic_less_bic [of results_no_params] by blast
  have zero: "res_nobs results_no_obs = 0 \<and> bic results_no_obs = None"
    using h4 C9_aic_less_bic [of results_no_obs] by blast
  from one none zero show ?thesis by blast
qed

text \<open>
  C7. In a model with a regression component (estimated by maximum likelihood or in the
  state), \<^verbatim>\<open>predict\<close> over a range that extends beyond the sample
  (\<^verbatim>\<open>_out_of_sample > 0\<close>), called without \<^verbatim>\<open>exog\<close>, raises the error that
  out-of-sample forecasting requires exogenous values. \<^verbatim>\<open>forecast\<close> is \<^verbatim>\<open>predict\<close>
  from the end of the sample, so the same holds for it.
\<close>

theorem C7_out_of_sample_needs_exog:
  assumes "mle_regression m \<or> state_regression m"
    and "get_predict_start (case start of None \<Rightarrow> 0 | Some s \<Rightarrow> s) = Inr start2"
    and "get_predict_end end1 = Inr (end2, out_of_sample)"
    and "0 < out_of_sample"
  shows "predict get_predict_start get_predict_end base_predict m start end1 None
         = Inl (ValueError msg_out_of_sample)"
  using assms by (auto simp: predict_def bind_err_def Let_def)

theorem C7_out_of_sample_needs_exog_witness:
  "case sarimax_init spec_two_regressors of
     Inl e \<Rightarrow> False
   | Inr m \<Rightarrow>
       (mle_regression m \<or> state_regression m) \<and>
       forecast Inr (\<lambda>e. Inr (99, 5)) (\<lambda>s e x b. Inr ()) m 100 5 None
         = Inl (ValueError msg_out_of_sample)"
proof -
  obtain m where m: "sarimax_init spec_two_regressors = Inr m" and reg: "mle_regression m"
    by (simp add: spec_two_regressors_def default_spec_def init_defs)
  have "predict Inr (\<lambda>e. Inr (99, 5)) (\<lambda>s e x b. Inr ()) m (Some 100) (Some 104) None
        = Inl (ValueError msg_out_of_sample)"
    by (rule C7_out_of_sample_needs_exog [where ?start2.0 = 100 and ?end2.0 = 99 and out_of_sample = 5])
       (use reg in simp_all)
  then show ?thesis using m reg by (simp add: forecast_def)
qed

section \<open>Properties of the parameter transform\<close>

lemma transform_params_walk: "transform_params constrain m = walk_params constrain squares square m"
  by (rule ext) (simp add: transform_params_def walk_params_def)

lemma untransform_params_walk: "untransform_params unconstrain m = walk_params unconstrain roots root m"
  by (rule ext) (simp add: untransform_params_def walk_params_def)

lemma slice_bound_int [simp]: "slice_bound n (int i) = min i n"
  by (simp add: slice_bound_def)

lemma slice_bound_int_add [simp]: "slice_bound n (int i + int j) = min (i + j) n"
  by (simp add: slice_bound_def nat_add_distrib)

lemma slice_append:
  "slice (int (length pre)) (int (length pre) + int (length seg)) (pre @ seg @ post) = seg"
  by (simp add: slice_def)

lemma slice_assign_append:
  assumes "length acc = length pre" "length v = length seg"
  shows "slice_assign (int (length pre)) (int (length pre) + int (length seg)) v
           (acc @ replicate (length seg + n) 0)
         = Inr ((acc @ v) @ replicate n 0)"
  using assms by (simp add: slice_assign_def Let_def replicate_add)

text \<open>
  One block on a vector \<open>pre @ seg @ post\<close>, when the cursor stands after \<open>pre\<close> and
  the output so far is \<open>acc\<close> followed by zeros: the block writes the image of \<open>seg\<close>
  and moves the cursor behind it. A block whose guard is false does nothing, and then
  \<open>seg\<close> is empty.
\<close>

lemma segment_step_append:
  assumes c: "cur_start c = int (length pre)" "cur_end c = int (length pre)"
             "cur_out c = acc @ replicate (length seg + n) 0"
    and len: "length acc = length pre"
    and g: "guard \<Longrightarrow> k = int (length seg)" "\<not> guard \<Longrightarrow> seg = []"
    and h: "h seg = Inr v" "length v = length seg"
  shows "segment_step guard k h (pre @ seg @ post) (c::cursor)
         = Inr \<lparr> cur_start = int (length (pre @ seg)), cur_end = int (length (pre @ seg)),
                 cur_out = (acc @ v) @ replicate n 0 \<rparr>"
proof (cases guard)
  case True
  then show ?thesis
    using c len g(1) h slice_assign_append [OF len h(2), of n] slice_append [of pre seg post]
    by (simp add: segment_step_def bind_err_def Let_def)
next
  case False
  then have "seg = []" "v = []" using g(2) h(2) by auto
  then show ?thesis using False c by (simp add: segment_step_def)
qed

lemma scalar_step_advance:
  assumes c: "cur_start c = int (length pre)" "cur_end c = int (length pre)"
             "cur_out c = acc @ replicate (length seg + n) 0"
    and len: "length acc = length pre"
    and g: "length seg = (if guard then 1 else 0)"
    and h: "\<And>x. seg = [x] \<Longrightarrow> h x = Inr (f x)"
  shows "scalar_step guard True h (pre @ seg @ post) (c::cursor)
         = Inr \<lparr> cur_start = int (length (pre @ seg)), cur_end = int (length (pre @ seg)),
                 cur_out = (acc @ map f seg) @ replicate n 0 \<rparr>"
proof (cases guard)
  case True
  then obtain x where x: "seg = [x]" using g by (cases seg) auto
  show ?thesis using True c len h [OF x] unfolding x
    by (simp add: scalar_step_def array_get_def array_set_def array_position_def bind_err_def
          nth_append list_update_append)
next
  case False
  then have "seg = []" using g by auto
  then show ?thesis using False c by (simp add: scalar_step_def)
qed

lemma scalar_step_last:
  assumes c: "cur_start c = int (length pre)" "cur_end c = int (length pre)"
             "cur_out c = acc @ replicate (length seg + n) 0"
    and len: "length acc = length pre"
    and g: "length seg = (if guard then 1 else 0)"
    and h: "\<And>x. seg = [x] \<Longrightarrow> h x = Inr (f x)"
  shows "scalar_step guard False h (pre @ seg @ post) (c::cursor)
         = Inr \<lparr> cur_start = int (length pre), cur_end = int (length pre),
                 cur_out = (acc @ map f seg) @ replicate n 0 \<rparr>"
proof (cases guard)
  case True
  then obtain x where x: "seg = [x]" using g by (cases seg) auto
  show ?thesis using True c len h [OF x] unfolding x
    by (simp add: scalar_step_def array_get_def array_set_def array_position_def bind_err_def
          nth_append list_update_append)
next
  case False
  then have "seg = []" using g by auto
  then show ?thesis using False c by (simp add: scalar_step_def)
qed

text \<open>
  The walk over a vector laid out as the model requires: every segment is mapped by its
  operation and the output is the concatenation of the images.
\<close>

lemma walk_params_layout:
  assumes lay: "param_layout m t x a b sa sb ev mv sv"
    and f: "\<And>xs. length (f xs) = length xs"
    and var: "var ev = Inr (map g ev)"
    and sc1: "\<And>y. mv = [y] \<Longrightarrow> sc y = Inr (g y)"
    and sc2: "\<And>y. sv = [y] \<Longrightarrow> sc y = Inr (g y)"
  shows "walk_params f var sc m (t @ x @ a @ b @ sa @ sb @ ev @ mv @ sv)
         = Inr (t @ x @ (if enforce_stationarity m then f a else a)
                 @ (if enforce_invertibility m then f b else b)
                 @ (if enforce_stationarity m then f sa else sa)
                 @ (if enforce_invertibility m then f sb else sb)
                 @ map g ev @ map g mv @ map g sv)"
proof -
  define u where "u = t @ x @ a @ b @ sa @ sb @ ev @ mv @ sv"
  define fa where "fa = (if enforce_stationarity m then f a else a)"
  define fb where "fb = (if enforce_invertibility m then f b else b)"
  define fsa where "fsa = (if enforce_stationarity m then f sa else sa)"
  define fsb where "fsb = (if enforce_invertibility m then f sb else sb)"
  define hs where "hs = (if enforce_stationarity m then (\<lambda>xs. Inr (f xs)) else retain)"
  define hi where "hi = (if enforce_invertibility m then (\<lambda>xs. Inr (f xs)) else retain)"
  have img: "hs a = Inr fa" "length fa = length a" "hs sa = Inr fsa" "length fsa = length sa"
    "hi b = Inr fb" "length fb = length b" "hi sb = Inr fsb" "length fsb = length sb"
    "retain t = Inr t" "retain x = Inr x"
    by (simp_all add: hs_def fa_def fsa_def hi_def fb_def fsb_def retain_def f)
  have lens: "length t = k_trend m" "mle_regression m \<Longrightarrow> length x = k_exog m"
    "\<not> mle_regression m \<Longrightarrow> x = []"
    "k_ar_params m > 0 \<Longrightarrow> k_ar_params m = int (length a)" "\<not> k_ar_params m > 0 \<Longrightarrow> a = []"
    "k_ma_params m > 0 \<Longrightarrow> k_ma_params m = int (length b)" "\<not> k_ma_params m > 0 \<Longrightarrow> b = []"
    "k_seasonal_ar m > 0 \<Longrightarrow> k_seasonal_ar_params m = int (length sa)"
    "\<not> k_seasonal_ar m > 0 \<Longrightarrow> sa = []"
    "k_seasonal_ma_params m > 0 \<Longrightarrow> k_seasonal_ma_params m = int (length sb)"
    "\<not> k_seasonal_ma_params m > 0 \<Longrightarrow> sb = []"
    "state_regression m \<and> time_varying_regression m \<Longrightarrow> length ev = k_exog m"
    "\<not> (state_regression m \<and> time_varying_regression m) \<Longrightarrow> ev = []"
    "length mv = (if measurement_error m then 1 else 0)"
    "length sv = (if state_error m then 1 else 0)"
    using lay by (auto simp: param_layout_def split: if_splits)
  define cur :: "real list \<Rightarrow> real list \<Rightarrow> nat \<Rightarrow> cursor" where
    "cur = (\<lambda>pre acc n. \<lparr> cur_start = int (length pre), cur_end = int (length pre),
                           cur_out = acc @ replicate n 0 \<rparr>)"
  have s0: "\<lparr> cur_start = 0, cur_end = 0, cur_out = replicate (length u) 0 \<rparr>
            = cur [] [] (length t + (length x + (length a + (length b + (length sa + (length sb + (length ev + (length mv + (length sv + (0))))))))))"
    by (simp add: cur_def u_def)
  have s1: "segment_step (k_trend m > 0) (int (k_trend m)) retain u (cur [] [] (length t + (length x + (length a + (length b + (length sa + (length sb + (length ev + (length mv + (length sv + (0)))))))))))
            = Inr (cur ([] @ t) ([] @ t) (length x + (length a + (length b + (length sa + (length sb + (length ev + (length mv + (length sv + (0))))))))))"
  proof -
    have u: "u = [] @ t @ (x @ a @ b @ sa @ sb @ ev @ mv @ sv)"
      by (simp add: u_def)
    show ?thesis
      unfolding u cur_def
      by (rule segment_step_append) (use lens img var sc1 sc2 in simp_all)
  qed
  have s2: "segment_step (mle_regression m) (int (k_exog m)) retain u (cur ([] @ t) ([] @ t) (length x + (length a + (length b + (length sa + (length sb + (length ev + (length mv + (length sv + (0))))))))))
            = Inr (cur (([] @ t) @ x) (([] @ t) @ x) (length a + (length b + (length sa + (length sb + (length ev + (length mv + (length sv + (0)))))))))"
  proof -
    have u: "u = ([] @ t) @ x @ (a @ b @ sa @ sb @ ev @ mv @ sv)"
      by (simp add: u_def)
    show ?thesis
      unfolding u cur_def
      by (rule segment_step_append) (use lens img var sc1 sc2 in simp_all)
  qed
  have s3: "segment_step (k_ar_params m > 0) (k_ar_params m) hs u (cur (([] @ t) @ x) (([] @ t) @ x) (length a + (length b + (length sa + (length sb + (length ev + (length mv + (length sv + (0)))))))))
            = Inr (cur ((([] @ t) @ x) @ a) ((([] @ t) @ x) @ fa) (length b + (length sa + (length sb + (length ev + (length mv + (length sv + (0))))))))"
  proof -
    have u: "u = (([] @ t) @ x) @ a @ (b @ sa @ sb @ ev @ mv @ sv)"
      by (simp add: u_def)
    show ?thesis
      unfolding u cur_def
      by (rule segment_step_append) (use lens img var sc1 sc2 in simp_all)
  qed
  have s4: "segment_step (k_ma_params m > 0) (k_ma_params m) hi u (cur ((([] @ t) @ x) @ a) ((([] @ t) @ x) @ fa) (length b + (length sa + (length sb + (length ev + (length mv + (length sv + (0))))))))
            = Inr (cur (((([] @ t) @ x) @ a) @ b) (((([] @ t) @ x) @ fa) @ fb) (length sa + (length sb + (length ev + (length mv + (length sv + (0)))))))"
  proof -
    have u: "u = ((([] @ t) @ x) @ a) @ b @ (sa @ sb @ ev @ mv @ sv)"
      by (simp add: u_def)
    show ?thesis
      unfolding u cur_def
      by (rule segment_step_append) (use lens img var sc1 sc2 in simp_all)
  qed
  have s5: "segment_step (k_seasonal_ar m > 0) (k_seasonal_ar_params m) hs u (cur (((([] @ t) @ x) @ a) @ b) (((([] @ t) @ x) @ fa) @ fb) (length sa + (length sb + (length ev + (length mv + (length sv + (0)))))))
            = Inr (cur ((((([] @ t) @ x) @ a) @ b) @ sa) ((((([] @ t) @ x) @ fa) @ fb) @ fsa) (length sb + (length ev + (length mv + (length sv + (0))))))"
  proof -
    have u: "u = (((([] @ t) @ x) @ a) @ b) @ sa @ (sb @ ev @ mv @ sv)"
      by (simp add: u_def)
    show ?thesis
      unfolding u cur_def
      by (rule segment_step_append) (use lens img var sc1 sc2 in simp_all)
  qed
  have s6: "segment_step (k_seasonal_ma_params m > 0) (k_seasonal_ma_params m) hi u (cur ((((([] @ t) @ x) @ a) @ b) @ sa) ((((([] @ t) @ x) @ fa) @ fb) @ fsa) (length sb + (length ev + (length mv + (length sv + (0))))))
            = Inr (cur (((((([] @ t) @ x) @ a) @ b) @ sa) @ sb) (((((([] @ t) @ x) @ fa) @ fb) @ fsa) @ fsb) (length ev + (length mv + (length sv + (0)))))"
  proof -
    have u: "u = ((((([] @ t) @ x) @ a) @ b) @ sa) @ sb @ (ev @ mv @ sv)"
      by (simp add: u_def)
    show ?thesis
      unfolding u cur_def
      by (rule segment_step_append) (use lens img var sc1 sc2 in simp_all)
  qed
  have s7: "segment_step (state_regression m \<and> time_varying_regression m) (int (k_exog m)) var u (cur (((((([] @ t) @ x) @ a) @ b) @ sa) @ sb) (((((([] @ t) @ x) @ fa) @ fb) @ fsa) @ fsb) (length ev + (length mv + (length sv + (0)))))
            = Inr (cur ((((((([] @ t) @ x) @ a) @ b) @ sa) @ sb) @ ev) ((((((([] @ t) @ x) @ fa) @ fb) @ fsa) @ fsb) @ map g ev) (length mv + (length sv + (0))))"
  proof -
    have u: "u = (((((([] @ t) @ x) @ a) @ b) @ sa) @ sb) @ ev @ (mv @ sv)"
      by (simp add: u_def)
    show ?thesis
      unfolding u cur_def
      by (rule segment_step_append) (use lens img var sc1 sc2 in simp_all)
  qed
  have s8: "scalar_step (measurement_error m) True sc u (cur ((((((([] @ t) @ x) @ a) @ b) @ sa) @ sb) @ ev) ((((((([] @ t) @ x) @ fa) @ fb) @ fsa) @ fsb) @ map g ev) (length mv + (length sv + (0))))
            = Inr (cur (((((((([] @ t) @ x) @ a) @ b) @ sa) @ sb) @ ev) @ mv) (((((((([] @ t) @ x) @ fa) @ fb) @ fsa) @ fsb) @ map g ev) @ map g mv) (length sv + (0)))"
  proof -
    have u: "u = ((((((([] @ t) @ x) @ a) @ b) @ sa) @ sb) @ ev) @ mv @ (sv)"
      by (simp add: u_def)
    show ?thesis
      unfolding u cur_def
      by (rule scalar_step_advance) (use lens img var sc1 sc2 in simp_all)
  qed
  have s9: "scalar_step (state_error m) False sc u (cur (((((((([] @ t) @ x) @ a) @ b) @ sa) @ sb) @ ev) @ mv) (((((((([] @ t) @ x) @ fa) @ fb) @ fsa) @ fsb) @ map g ev) @ map g mv) (length sv + (0)))
            = Inr (cur (((((((([] @ t) @ x) @ a) @ b) @ sa) @ sb) @ ev) @ mv) ((((((((([] @ t) @ x) @ fa) @ fb) @ fsa) @ fsb) @ map g ev) @ map g mv) @ map g sv) (0))"
  proof -
    have u: "u = (((((((([] @ t) @ x) @ a) @ b) @ sa) @ sb) @ ev) @ mv) @ sv @ ([])"
      by (simp add: u_def)
    show ?thesis
      unfolding u cur_def
      by (rule scalar_step_last) (use lens img var sc1 sc2 in simp_all)
  qed
  have "walk_params f var sc m u
        = Inr (cur_out (cur (((((((([] @ t) @ x) @ a) @ b) @ sa) @ sb) @ ev) @ mv) ((((((((([] @ t) @ x) @ fa) @ fb) @ fsa) @ fsb) @ map g ev) @ map g mv) @ map g sv) 0))"
    unfolding walk_params_def hs_def [symmetric] hi_def [symmetric] s0 bind_err_def
      s1 s2 s3 s4 s5 s6 s7 s8 s9 sum.case
    by (rule refl)
  then show ?thesis by (simp add: cur_def u_def fa_def fb_def fsa_def fsb_def)
qed

lemma roots_squares: "roots (map (\<lambda>x. x ^ 2) xs) = Inr (map (\<lambda>y. sqrt y) (map (\<lambda>x. x ^ 2) xs))"
  by (simp add: roots_def list_ex_iff)

text \<open>
  The transform followed by its inverse, on a vector laid out as the model requires: the
  trend and regression segments come back unchanged, as do the AR and MA segments that
  are not constrained; a constrained segment is mapped by \<open>constrain\<close> and then by
  \<open>unconstrain\<close>; every variance comes back as its absolute value.
\<close>

lemma transform_untransform_layout:
  assumes lay: "param_layout m t x a b sa sb ev mv sv"
    and c: "\<And>xs. length (constrain xs) = length xs"
    and u: "\<And>xs. length (unconstrain xs) = length xs"
  shows "bind_err (transform_params constrain m (t @ x @ a @ b @ sa @ sb @ ev @ mv @ sv))
           (untransform_params unconstrain m)
         = Inr (t @ x @ (if enforce_stationarity m then unconstrain (constrain a) else a)
                 @ (if enforce_invertibility m then unconstrain (constrain b) else b)
                 @ (if enforce_stationarity m then unconstrain (constrain sa) else sa)
                 @ (if enforce_invertibility m then unconstrain (constrain sb) else sb)
                 @ map abs ev @ map abs mv @ map abs sv)"
proof -
  define ca where "ca = (if enforce_stationarity m then constrain a else a)"
  define cb where "cb = (if enforce_invertibility m then constrain b else b)"
  define csa where "csa = (if enforce_stationarity m then constrain sa else sa)"
  define csb where "csb = (if enforce_invertibility m then constrain sb else sb)"
  define sq where "sq = (\<lambda>x::real. x ^ 2)"
  have fwd: "transform_params constrain m (t @ x @ a @ b @ sa @ sb @ ev @ mv @ sv)
                 = Inr (t @ x @ ca @ cb @ csa @ csb @ map sq ev @ map sq mv @ map sq sv)"
    unfolding transform_params_walk ca_def cb_def csa_def csb_def sq_def
    by (rule walk_params_layout [OF lay c]) (simp_all add: squares_def square_def)
  have len: "length ca = length a" "length cb = length b" "length csa = length sa"
    "length csb = length sb"
    by (simp_all add: ca_def cb_def csa_def csb_def c)
  have lay2: "param_layout m t x ca cb csa csb (map sq ev) (map sq mv) (map sq sv)"
    using lay unfolding param_layout_def by (simp only: len length_map)
  have bwd: "untransform_params unconstrain m
                (t @ x @ ca @ cb @ csa @ csb @ map sq ev @ map sq mv @ map sq sv)
              = Inr (t @ x @ (if enforce_stationarity m then unconstrain ca else ca)
                      @ (if enforce_invertibility m then unconstrain cb else cb)
                      @ (if enforce_stationarity m then unconstrain csa else csa)
                      @ (if enforce_invertibility m then unconstrain csb else csb)
                      @ map sqrt (map sq ev) @ map sqrt (map sq mv) @ map sqrt (map sq sv))"
    unfolding untransform_params_walk
  proof (rule walk_params_layout [OF lay2 u])
    show "roots (map sq ev) = Inr (map sqrt (map sq ev))"
      unfolding sq_def by (rule roots_squares)
    show "root y = Inr (sqrt y)" if "map sq mv = [y]" for y
    proof -
      from that obtain z where "y = sq z" by (cases mv) auto
      then show ?thesis by (simp add: root_def sq_def)
    qed
    show "root y = Inr (sqrt y)" if "map sq sv = [y]" for y
    proof -
      from that obtain z where "y = sq z" by (cases sv) auto
      then show ?thesis by (simp add: root_def sq_def)
    qed
  qed
  have abs_eq: "map sqrt (map sq zs) = map abs zs" for zs
    by (simp add: sq_def)
  show ?thesis
    unfolding fwd bind_err_def sum.case bwd abs_eq
    by (simp add: ca_def cb_def csa_def csb_def)
qed

text \<open>
  C2 as stated fails on the variance segments. For
  \<^verbatim>\<open>order=(1,0,0), enforce_stationarity=False\<close> and the unconstrained vector
  \<open>[1/2, -1]\<close> (AR coefficient, state standard deviation) the round trip returns
  \<open>[1/2, 1]\<close>: the square of \<open>-1\<close> is 1, whose root is 1.
\<close>

theorem C2_negative_variance_counterexample:
  "map_sum id (\<lambda>m. bind_err (transform_params id m [1 / 2, - 1]) (untransform_params id m))
     (sarimax_init spec_ar1_unenforced)
   = Inr (Inr [1 / 2, 1])"
proof -
  have "\<exists>m. sarimax_init spec_ar1_unenforced = Inr m \<and>
            param_layout m [] [] [1 / 2] [] [] [] [] [] [- 1] \<and> \<not> enforce_stationarity m"
    by (simp add: spec_ar1_unenforced_def default_spec_def init_defs param_layout_def)
  then obtain m where m: "sarimax_init spec_ar1_unenforced = Inr m"
    and lay: "param_layout m [] [] [1 / 2] [] [] [] [] [] [- 1]"
    and e: "\<not> enforce_stationarity m"
    by blast
  show ?thesis
    using transform_untransform_layout [OF lay, of id id] e by (simp add: m)
qed

text \<open>
  C2, amended. For a vector laid out as the model requires, the transform succeeds and
  the inverse transform of its result succeeds, and the result reconstructs the vector
  exactly on the identity segments (trend, regression coefficients, and the AR and MA
  segments whose enforcement flag is off), and gives the absolute values on the squared
  variance segments, so these are reconstructed exactly when they are non-negative. The
  functions \<open>constrain\<close> and \<open>unconstrain\<close> are any two that preserve the length of
  their argument.
\<close>

theorem C2_round_trip:
  assumes "param_layout m t x a b sa sb ev mv sv"
    and "\<And>xs. length (constrain xs) = length xs"
    and "\<And>xs. length (unconstrain xs) = length xs"
  shows "\<exists>c. transform_params constrain m (t @ x @ a @ b @ sa @ sb @ ev @ mv @ sv) = Inr c \<and>
           untransform_params unconstrain m c
           = Inr (t @ x @ (if enforce_stationarity m then unconstrain (constrain a) else a)
                   @ (if enforce_invertibility m then unconstrain (constrain b) else b)
                   @ (if enforce_stationarity m then unconstrain (constrain sa) else sa)
                   @ (if enforce_invertibility m then unconstrain (constrain sb) else sb)
                   @ map abs ev @ map abs mv @ map abs sv)"
  using transform_untransform_layout [OF assms]
  by (cases "transform_params constrain m (t @ x @ a @ b @ sa @ sb @ ev @ mv @ sv)")
     (simp_all add: bind_err_def)

theorem C2_round_trip_witness:
  "case sarimax_init spec_ar2_trend of
     Inl e \<Rightarrow> False
   | Inr m \<Rightarrow>
       param_layout m [3] [] [1, 2] [] [] [] [] [- 2] [5] \<and>
       (\<exists>c. transform_params (map (\<lambda>x. x / 2)) m [3, 1, 2, - 2, 5] = Inr c \<and>
            untransform_params (map (\<lambda>x. 3 * x)) m c = Inr [3, 3 / 2, 3, 2, 5])"
proof -
  have "\<exists>m. sarimax_init spec_ar2_trend = Inr m \<and>
            param_layout m [3] [] [1, 2] [] [] [] [] [- 2] [5] \<and> enforce_stationarity m"
    by (simp add: spec_ar2_trend_def default_spec_def init_defs param_layout_def eval_nat_numeral)
  then obtain m where m: "sarimax_init spec_ar2_trend = Inr m"
    and lay: "param_layout m [3] [] [1, 2] [] [] [] [] [- 2] [5]"
    and e: "enforce_stationarity m"
    by blast
  have "\<exists>c. transform_params (map (\<lambda>x. x / 2)) m ([3] @ [] @ [1, 2] @ [] @ [] @ [] @ [] @ [- 2] @ [5])
              = Inr c \<and>
            untransform_params (map (\<lambda>x. 3 * x)) m c
              = Inr ([3] @ [] @ (if enforce_stationarity m
                                then map (\<lambda>x. 3 * x) (map (\<lambda>x. x / 2) [1, 2]) else [1, 2])
                      @ (if enforce_invertibility m
                         then map (\<lambda>x. 3 * x) (map (\<lambda>x. x / 2) []) else [])
                      @ (if enforce_stationarity m
                         then map (\<lambda>x. 3 * x) (map (\<lambda>x. x / 2) []) else [])
                      @ (if enforce_invertibility m
                         then map (\<lambda>x. 3 * x) (map (\<lambda>x. x / 2) []) else [])
                      @ map abs [] @ map abs [- 2] @ map abs [5])"
    by (rule C2_round_trip [OF lay]) simp_all
  then show ?thesis using m lay e by (cases "enforce_invertibility m") simp_all
qed

subsection \<open>Every vector of the right length has a layout\<close>

text \<open>
  Every vector of the length that the methods walk has a layout, for every model that the
  constructor builds. The seasonal AR block is guarded by \<^verbatim>\<open>k_seasonal_ar > 0\<close> and
  advances by \<^verbatim>\<open>k_seasonal_ar_params\<close>, which is not negative then: writing the
  inclusion flags never touches the constant term of a seasonal polynomial of positive
  degree.
\<close>

lemma fold_update_hd:
  assumes "\<And>i. i \<in> set js \<Longrightarrow> 0 < pos i"
  shows "\<exists>ys. fold (\<lambda>i p. p[pos i := val i]) js (x # xs) = x # ys \<and> length ys = length xs"
  using assms
proof (induction js arbitrary: xs)
  case Nil
  then show ?case by simp
next
  case (Cons j js)
  from Cons.prems have "0 < pos j" by simp
  then obtain n where n: "pos j = Suc n" by (cases "pos j") auto
  have "\<exists>ys. fold (\<lambda>i p. p[pos i := val i]) js (x # xs[n := val j]) = x # ys
             \<and> length ys = length (xs[n := val j])"
    by (rule Cons.IH) (use Cons.prems in simp)
  then show ?case by (simp add: n)
qed

lemma length_fold_update:
  "length (fold (\<lambda>i p. p[pos i := val i]) js p) = length p"
  by (induction js arbitrary: p) simp_all

lemma seasonal_lag_polynomial_sum:
  assumes "1 < length (seasonal_lag_polynomial s os)"
  shows "1 \<le> sum_list (seasonal_lag_polynomial s os)"
proof (cases os)
  case (Count k)
  then show ?thesis by (simp add: seasonal_lag_polynomial_def)
next
  case (Lags flags)
  show ?thesis
  proof (cases "s = 0")
    case True
    have "length (seasonal_lag_polynomial s os) = 1"
      using True Lags
      by (simp add: seasonal_lag_polynomial_def
            length_fold_update [where pos = "\<lambda>i. 0" and val = "\<lambda>i. of_bool (flags ! i)"])
    with assms show ?thesis by simp
  next
    case False
    then have "\<And>i. i \<in> set [0..<length flags] \<Longrightarrow> 0 < (i + 1) * s" by simp
    from fold_update_hd [of "[0..<length flags]" "\<lambda>i. (i + 1) * s", OF this]
    obtain ys where "seasonal_lag_polynomial s os = 1 # ys"
      using Lags unfolding seasonal_lag_polynomial_def by fastforce
    then show ?thesis by simp
  qed
qed

lemma seasonal_ar_params_nonneg:
  assumes "sarimax_init a = Inr m" and "0 < k_seasonal_ar m"
  shows "0 \<le> k_seasonal_ar_params m"
proof -
  have m: "m = sarimax_attributes a"
    using assms(1) by (auto simp: sarimax_init_def split: if_splits)
  have "1 < length (seasonal_lag_polynomial (arg_seasons a) (arg_seasonal_ar a))"
    using assms(2) unfolding m by (simp add: sarimax_attributes_def Let_def)
  then have "1 \<le> sum_list (seasonal_lag_polynomial (arg_seasons a) (arg_seasonal_ar a))"
    by (rule seasonal_lag_polynomial_sum)
  then show ?thesis
    unfolding m by (simp add: sarimax_attributes_def Let_def)
qed

lemma split_length:
  assumes "length u = n + k"
  obtains p q where "u = p @ q" and "length p = n" and "length q = k"
proof
  show "u = take n u @ drop n u" by simp
  show "length (take n u) = n" using assms by simp
  show "length (drop n u) = k" using assms by simp
qed

lemma param_layout_exists:
  assumes init: "sarimax_init a = Inr m" and len: "length u = walk_length m"
  shows "\<exists>t x ar ma sar sma ev mv sv.
           u = t @ x @ ar @ ma @ sar @ sma @ ev @ mv @ sv \<and>
           param_layout m t x ar ma sar sma ev mv sv"
proof -
  define n1 where "n1 = (if mle_regression m then k_exog m else 0)"
  define n2 where "n2 = (if k_ar_params m > 0 then nat (k_ar_params m) else 0)"
  define n3 where "n3 = (if k_ma_params m > 0 then nat (k_ma_params m) else 0)"
  define n4 where "n4 = (if k_seasonal_ar m > 0 then nat (k_seasonal_ar_params m) else 0)"
  define n5 where "n5 = (if k_seasonal_ma_params m > 0 then nat (k_seasonal_ma_params m) else 0)"
  define n6 where "n6 = (if state_regression m \<and> time_varying_regression m then k_exog m else 0)"
  define n7 where "n7 = (if measurement_error m then 1 else 0 :: nat)"
  define n8 where "n8 = (if state_error m then 1 else 0 :: nat)"
  have "length u = k_trend m + (n1 + (n2 + (n3 + (n4 + (n5 + (n6 + (n7 + n8)))))))"
    using len by (simp add: walk_length_def n1_def n2_def n3_def n4_def n5_def n6_def n7_def n8_def)
  then obtain t r1 where u: "u = t @ r1" and t: "length t = k_trend m"
    and l1: "length r1 = n1 + (n2 + (n3 + (n4 + (n5 + (n6 + (n7 + n8))))))"
    by (rule split_length)
  from l1 obtain x r2 where r1: "r1 = x @ r2" and x: "length x = n1"
    and l2: "length r2 = n2 + (n3 + (n4 + (n5 + (n6 + (n7 + n8)))))"
    by (rule split_length)
  from l2 obtain ar r3 where r2: "r2 = ar @ r3" and ar: "length ar = n2"
    and l3: "length r3 = n3 + (n4 + (n5 + (n6 + (n7 + n8))))"
    by (rule split_length)
  from l3 obtain ma r4 where r3: "r3 = ma @ r4" and ma: "length ma = n3"
    and l4: "length r4 = n4 + (n5 + (n6 + (n7 + n8)))"
    by (rule split_length)
  from l4 obtain sar r5 where r4: "r4 = sar @ r5" and sar: "length sar = n4"
    and l5: "length r5 = n5 + (n6 + (n7 + n8))"
    by (rule split_length)
  from l5 obtain sma r6 where r5: "r5 = sma @ r6" and sma: "length sma = n5"
    and l6: "length r6 = n6 + (n7 + n8)"
    by (rule split_length)
  from l6 obtain ev r7 where r6: "r6 = ev @ r7" and ev: "length ev = n6"
    and l7: "length r7 = n7 + n8"
    by (rule split_length)
  from l7 obtain mv sv where r7: "r7 = mv @ sv" and mv: "length mv = n7" and sv: "length sv = n8"
    by (rule split_length)
  have nonneg: "0 < k_seasonal_ar m \<Longrightarrow> 0 \<le> k_seasonal_ar_params m"
    using init by (rule seasonal_ar_params_nonneg)
  have "param_layout m t x ar ma sar sma ev mv sv"
    unfolding param_layout_def t x ar ma sar sma ev mv sv
    using nonneg by (simp add: n1_def n2_def n3_def n4_def n5_def n6_def n7_def n8_def)
  moreover have "u = t @ x @ ar @ ma @ sar @ sma @ ev @ mv @ sv"
    by (simp add: u r1 r2 r3 r4 r5 r6 r7)
  ultimately show ?thesis by blast
qed

text \<open>
  So the round trip returns for every vector of that length, with a vector of the same
  length.
\<close>

lemma round_trip_returns:
  assumes init: "sarimax_init a = Inr m" and len: "length u = walk_length m"
    and c: "\<And>xs. length (constrain xs) = length xs"
    and uc: "\<And>xs. length (unconstrain xs) = length xs"
  shows "\<exists>v. bind_err (transform_params constrain m u) (untransform_params unconstrain m) = Inr v
             \<and> length v = length u"
proof -
  from param_layout_exists [OF init len] obtain t x ar ma sar sma ev mv sv
    where u: "u = t @ x @ ar @ ma @ sar @ sma @ ev @ mv @ sv"
      and lay: "param_layout m t x ar ma sar sma ev mv sv"
    by blast
  show ?thesis
    unfolding u transform_untransform_layout [OF lay c uc] by (simp add: c uc)
qed

section \<open>Regression by maximum likelihood without regressors\<close>

text \<open>
  C10. A model constructed with \<^verbatim>\<open>mle_regression=True\<close> but without exogenous data
  (\<^verbatim>\<open>exog=None\<close>, or an array without columns) is the model that the same
  arguments with \<^verbatim>\<open>mle_regression=False\<close> construct: its attribute
  \<^verbatim>\<open>mle_regression\<close> is false (and so is \<^verbatim>\<open>state_regression\<close>), its
  \<^verbatim>\<open>k_params\<close> is the sum of lines 344 to 349 without a term for the regression
  coefficients, and the block of the regression coefficients in the parameter
  transforms leaves the cursor and the output as they are.
\<close>

theorem C10_mle_regression_without_exog:
  assumes "sarimax_init a = Inr m"
    and "arg_mle_regression a"
    and "arg_exog a = None \<or> (\<exists>e. arg_exog a = Some e \<and> exog_columns e = 0)"
  shows "\<not> mle_regression m \<and> \<not> state_regression m \<and>
         k_params m = k_ar_params m + k_ma_params m + k_seasonal_ar_params m
                      + k_seasonal_ar_params m + int (k_trend m)
                      + of_bool (measurement_error m) + 1 \<and>
         sarimax_init (a\<lparr>arg_mle_regression := False\<rparr>) = Inr m \<and>
         segment_step (mle_regression m) (int (k_exog m)) h u c = Inr c"
proof -
  have tv: "\<not> arg_time_varying_regression a" and m: "m = sarimax_attributes a"
    using assms(1) by (auto simp: sarimax_init_def split: if_splits)
  have kx: "(case arg_exog a of None \<Rightarrow> 0 | Some e \<Rightarrow> exog_columns e) = 0"
    using assms(3) by auto
  have mle: "\<not> mle_regression m" and sr: "\<not> state_regression m"
    unfolding m using kx by (simp_all add: sarimax_attributes_def Let_def)
  have kp: "k_params m = k_ar_params m + k_ma_params m + k_seasonal_ar_params m
                      + k_seasonal_ar_params m + int (k_trend m)
                      + of_bool (measurement_error m) + 1"
    unfolding m using kx by (simp add: sarimax_attributes_def Let_def)
  have "sarimax_attributes (a\<lparr>arg_mle_regression := False\<rparr>) = sarimax_attributes a"
    using kx by (simp add: sarimax_attributes_def Let_def)
  then have same: "sarimax_init (a\<lparr>arg_mle_regression := False\<rparr>) = sarimax_init a"
    using tv by (simp add: sarimax_init_def)
  show ?thesis
    using mle sr kp same assms(1) by (simp add: segment_step_def)
qed

theorem C10_mle_regression_without_exog_witness:
  "case sarimax_init spec_no_columns of
     Inl e \<Rightarrow> False
   | Inr m \<Rightarrow>
       arg_mle_regression spec_no_columns \<and>
       (\<exists>e. arg_exog spec_no_columns = Some e \<and> exog_columns e = 0) \<and>
       \<not> mle_regression m \<and> \<not> state_regression m \<and> k_params m = 2 \<and>
       sarimax_init (spec_no_columns\<lparr>arg_mle_regression := False\<rparr>) = Inr m \<and>
       segment_step (mle_regression m) (int (k_exog m)) retain [1 / 2, 1]
         \<lparr> cur_start = 0, cur_end = 0, cur_out = [0, 0] \<rparr>
       = Inr \<lparr> cur_start = 0, cur_end = 0, cur_out = [0, 0] \<rparr>"
proof -
  have "\<exists>m. sarimax_init spec_no_columns = Inr m \<and> k_params m = 2"
    by (simp add: spec_no_columns_def default_spec_def init_defs)
  then obtain m where m: "sarimax_init spec_no_columns = Inr m" and k: "k_params m = 2"
    by blast
  have h2: "arg_mle_regression spec_no_columns"
    by (simp add: spec_no_columns_def default_spec_def)
  have h3: "\<exists>e. arg_exog spec_no_columns = Some e \<and> exog_columns e = 0"
    by (simp add: spec_no_columns_def default_spec_def exog_columns_def)
  from h3 have h3': "arg_exog spec_no_columns = None
                     \<or> (\<exists>e. arg_exog spec_no_columns = Some e \<and> exog_columns e = 0)"
    by blast
  show ?thesis
    using C10_mle_regression_without_exog [OF m h2 h3', of retain "[1 / 2, 1]"
        "\<lparr> cur_start = 0, cur_end = 0, cur_out = [0, 0] \<rparr>"] m k h2 h3
    by (simp add: segment_step_def)
qed

section \<open>Properties of the starting parameters\<close>

lemma bind_err_InrE:
  assumes "bind_err r k = Inr y"
  obtains x where "r = Inr x" and "k x = Inr y"
  using assms by (cases r) (simp_all add: bind_err_def)

lemma conditional_sum_squares_empty:
  assumes "conditional_sum_squares ar_residuals regress endog kar par kma pma ktrend td
           = Inr (tr, ar, ma, v)"
  shows "(kar = 0 \<longrightarrow> ar = []) \<and> (kma = 0 \<longrightarrow> ma = [])"
proof -
  note a = assms [unfolded conditional_sum_squares_def Let_def]
  show ?thesis
  proof (rule bind_err_InrE [OF a], goal_cases)
    case (1 fit)
    show ?case
    proof (rule bind_err_InrE [OF 1(2)], goal_cases)
      case (1 p)
      then show ?case by (auto simp: split_def)
    qed
  qed
qed

text \<open>
  C6. Let the conditional-sum-of-squares estimation of the non-seasonal and of the
  seasonal coefficients both return. If \<^verbatim>\<open>enforce_stationarity\<close> is set and the AR
  or the seasonal AR estimates are not stationary, or \<^verbatim>\<open>enforce_invertibility\<close> is
  set and the MA or the seasonal MA estimates are not invertible, then
  \<^verbatim>\<open>start_params\<close> raises \<^verbatim>\<open>ValueError\<close> and returns no starting point. The test
  \<^verbatim>\<open>is_invertible\<close> is any predicate that accepts the empty coefficient list, as the
  one of the tools module does.
\<close>

theorem C6_start_params_raises:
  assumes nil: "is_invertible []"
    and css: "conditional_sum_squares ar_residuals regress endog (k_ar m) (polynomial_ar m)
                (k_ma m) (polynomial_ma m) (k_trend m) (Some trend_data)
              = Inr (tr, ar, ma, v)"
    and css_seasonal: "conditional_sum_squares ar_residuals regress endog (k_seasonal_ar m)
                (polynomial_seasonal_ar m) (k_seasonal_ma m) (polynomial_seasonal_ma m) 0 None
              = Inr (str, sar, sma, sv)"
    and violated:
      "(enforce_stationarity m \<and>
          (\<not> is_invertible (map uminus ar) \<or> \<not> is_invertible (map uminus sar))) \<or>
       (enforce_invertibility m \<and> (\<not> is_invertible ma \<or> \<not> is_invertible sma))"
  shows "\<exists>msg. start_params ar_residuals regress is_invertible m endog ols_exog trend_data
               = Inl (ValueError msg)"
proof -
  define P1 where "P1 \<longleftrightarrow> k_ar m > 0 \<and> enforce_stationarity m \<and> \<not> is_invertible (map uminus ar)"
  define P2 where "P2 \<longleftrightarrow> k_ma m > 0 \<and> enforce_invertibility m \<and> \<not> is_invertible ma"
  define P3 where "P3 \<longleftrightarrow> k_seasonal_ar m > 0 \<and> enforce_stationarity m
                         \<and> \<not> is_invertible (map uminus sar)"
  define P4 where "P4 \<longleftrightarrow> k_seasonal_ma m > 0 \<and> enforce_invertibility m \<and> \<not> is_invertible sma"
  have e1: "(k_ar m = 0 \<longrightarrow> ar = []) \<and> (k_ma m = 0 \<longrightarrow> ma = [])"
    using css by (rule conditional_sum_squares_empty)
  have e2: "(k_seasonal_ar m = 0 \<longrightarrow> sar = []) \<and> (k_seasonal_ma m = 0 \<longrightarrow> sma = [])"
    using css_seasonal by (rule conditional_sum_squares_empty)
  have pos: "\<not> is_invertible (map uminus ar) \<Longrightarrow> k_ar m > 0"
    "\<not> is_invertible ma \<Longrightarrow> k_ma m > 0"
    "\<not> is_invertible (map uminus sar) \<Longrightarrow> k_seasonal_ar m > 0"
    "\<not> is_invertible sma \<Longrightarrow> k_seasonal_ma m > 0"
    using e1 e2 nil by (auto intro: ccontr)
  have some: "P1 \<or> P2 \<or> P3 \<or> P4"
    unfolding P1_def P2_def P3_def P4_def using violated pos by blast
  have unfold: "start_params ar_residuals regress is_invertible m endog ols_exog trend_data
     = (if P1 then Inl (ValueError msg_nonstationary)
        else if P2 then Inl (ValueError msg_noninvertible)
        else if P3 then Inl (ValueError msg_nonstationary)
        else if P4 then Inl (ValueError msg_noninvertible_seasonal)
        else start_params ar_residuals regress is_invertible m endog ols_exog trend_data)"
    unfolding P1_def P2_def P3_def P4_def
    by (simp add: start_params_def css css_seasonal bind_err_def Let_def)
  show ?thesis
    using some by (subst unfold) auto
qed

theorem C6_start_params_raises_witness:
  "case sarimax_init default_spec of
     Inl e \<Rightarrow> False
   | Inr m \<Rightarrow>
       is_invertible1 [] \<and> enforce_stationarity m \<and> \<not> is_invertible1 (map uminus [2]) \<and>
       conditional_sum_squares (\<lambda>endog k. Inr []) regress_two [1, 2, 4, 8] (k_ar m)
         (polynomial_ar m) (k_ma m) (polynomial_ma m) (k_trend m) (Some [[], [], [], []])
         = Inr ([], [2], [], Variance 0) \<and>
       (\<exists>msg. start_params (\<lambda>endog k. Inr []) regress_two is_invertible1 m [1, 2, 4, 8] []
                 [[], [], [], []] = Inl (ValueError msg))"
proof -
  have "\<exists>m. sarimax_init default_spec = Inr m \<and> enforce_stationarity m \<and>
          k_ar m = 1 \<and> k_ma m = 0 \<and> k_trend m = 0 \<and> k_seasonal_ar m = 0 \<and> k_seasonal_ma m = 0"
    by (simp add: default_spec_def init_defs)
  then obtain m where m: "sarimax_init default_spec = Inr m" and es: "enforce_stationarity m"
    and k: "k_ar m = 1" "k_ma m = 0" "k_trend m = 0" "k_seasonal_ar m = 0" "k_seasonal_ma m = 0"
    by blast
  have nil: "is_invertible1 []"
    by (simp add: is_invertible1_def)
  have bad: "\<not> is_invertible1 (map uminus [2])"
    by (simp add: is_invertible1_def)
  have css: "conditional_sum_squares (\<lambda>endog k. Inr []) regress_two [1, 2, 4, 8] (k_ar m)
               (polynomial_ar m) (k_ma m) (polynomial_ma m) (k_trend m) (Some [[], [], [], []])
             = Inr ([], [2], [], Variance 0)"
    by (simp add: conditional_sum_squares_def regress_two_def bind_err_def k slice_def
          slice_bound_def)
  have css_seasonal: "conditional_sum_squares (\<lambda>endog k. Inr []) regress_two [1, 2, 4, 8]
               (k_seasonal_ar m) (polynomial_seasonal_ar m) (k_seasonal_ma m)
               (polynomial_seasonal_ma m) 0 None
             = Inr ([], [], [], NoVariance)"
    by (simp add: conditional_sum_squares_def bind_err_def k)
  have "\<exists>msg. start_params (\<lambda>endog k. Inr []) regress_two is_invertible1 m [1, 2, 4, 8] []
                [[], [], [], []] = Inl (ValueError msg)"
    by (rule C6_start_params_raises [where is_invertible = is_invertible1
          and ar = "[2]" and sar = "[]" and ma = "[]" and sma = "[]", OF nil css css_seasonal])
       (use es bad in simp)
  then show ?thesis
    using m nil es bad css by simp
qed

section \<open>Properties of the initialisation\<close>

text \<open>
  Whenever \<^verbatim>\<open>initialize_state\<close> runs on a model that is not manually initialised and
  returns, the initialisation that the base class ends with is a known one; if
  stationarity is not enforced, an approximate diffuse initialisation was asked for
  first and then replaced.
\<close>

lemma initialize_state_ends_known:
  assumes "initialize_state solve_lyapunov r variance = Inr r1"
    and "\<not> priv_manual_initialization r"
  shows "\<exists>s c. initializations r1
               = initializations r
                 @ (if enforce_stationarity r then [] else [ApproximateDiffuse variance])
                 @ [Known s c]"
proof -
  note a = assms(1) [unfolded initialize_state_def Let_def]
  show ?thesis
  proof (cases "enforce_stationarity r")
    case True
    with a assms(2) show ?thesis
      by (auto simp: base_initialize_def elim!: bind_err_InrE)
  next
    case False
    with a assms(2) show ?thesis
      by (auto simp: base_initialize_def initialize_approximate_diffuse_def elim!: bind_err_InrE)
  qed
qed

text \<open>
  C4. Without enforced stationarity and without a manual initialisation,
  \<^verbatim>\<open>initialize_state\<close> should leave the approximate diffuse initialisation in place
  and install no Lyapunov-based covariance. For
  \<^verbatim>\<open>SARIMAX(endog, order=(1,0,0), enforce_stationarity=False)\<close> with the AR coefficient
  \<open>1/2\<close> and the state variance 1, the approximate diffuse initialisation is asked for and
  then replaced by a known initialisation whose covariance is the solution \<open>4/3\<close> of the
  Lyapunov equation, not the variance \<open>10\<^sup>6\<close>.
\<close>

theorem C4_initialize_state_installs_lyapunov:
  "map_sum id (\<lambda>m. map_sum id initializations
                     (initialize_state solve_lyapunov_1x1 (ar1_representation m) None))
     (sarimax_init spec_ar1_unenforced)
   = Inr (Inr [ApproximateDiffuse None, Known [0] [[4 / 3]]])"
  by (simp add: spec_ar1_unenforced_def default_spec_def init_defs initialize_state_def
        ar1_representation_def SARIMAX.extend_def Representation.fields_def
        initialize_approximate_diffuse_def base_initialize_def scaled_eye_def slice_opt_def
        slice_bound_def block_def set_block_def dot_def solve_lyapunov_1x1_def bind_err_def
        transpose.simps)

end
